theory Spec2Isabelle
  imports Main
begin

section \<open>Reading a time of day (the arithmetic of isInQuietHours)\<close>

text \<open>
  The numbers of the time arithmetic are the integers that a double holds exactly (up to
  \<open>2 ^ 53\<close> in magnitude) and \<^verbatim>\<open>NaN\<close>. A value that is a double of another kind (a
  fraction, an infinity, a larger integer) is not modelled: the functions below answer
  \<open>None\<close> for it. Every comparison with \<^verbatim>\<open>NaN\<close> is false, and \<^verbatim>\<open>undefined\<close> in
  arithmetic is \<^verbatim>\<open>NaN\<close>.
\<close>

datatype jsnum = Num int | NaN

definition safeInteger :: "int \<Rightarrow> jsnum option" where
  "safeInteger v = (if - (2 ^ 53) \<le> v \<and> v \<le> 2 ^ 53 then Some (Num v) else None)"

fun js_mul :: "jsnum \<Rightarrow> jsnum \<Rightarrow> jsnum option" where
  "js_mul (Num a) (Num b) = safeInteger (a * b)"
| "js_mul _ _ = Some NaN"

fun js_add :: "jsnum \<Rightarrow> jsnum \<Rightarrow> jsnum option" where
  "js_add (Num a) (Num b) = safeInteger (a + b)"
| "js_add _ _ = Some NaN"

fun js_lt :: "jsnum \<Rightarrow> jsnum \<Rightarrow> bool" where
  "js_lt (Num a) (Num b) = (a < b)"
| "js_lt _ _ = False"

fun js_ge :: "jsnum \<Rightarrow> jsnum \<Rightarrow> bool" where
  "js_ge (Num a) (Num b) = (a \<ge> b)"
| "js_ge _ _ = False"

subsection \<open>Number\<close>

text \<open>
  A string of the model is a list of bytes. The blanks that \<^verbatim>\<open>Number\<close> strips from both
  ends are, among the ASCII characters, tab, line feed, vertical tab, form feed, carriage
  return and space.
\<close>

definition isAscii :: "char \<Rightarrow> bool" where
  "isAscii c = (\<not> digit7 c)"

definition isBlank :: "char \<Rightarrow> bool" where
  "isBlank c = (c \<in> set [CHR 0x09, CHR 0x0A, CHR 0x0B, CHR 0x0C, CHR 0x0D, CHR 0x20])"

definition trim :: "string \<Rightarrow> string" where
  "trim s = rev (dropWhile isBlank (rev (dropWhile isBlank s)))"

text \<open>The digits of the four radixes, each table in the order of the values.\<close>

definition decimalDigits :: string where
  "decimalDigits = ''0123456789''"

definition digitVal :: "char \<Rightarrow> int option" where
  "digitVal c = map_of (zip decimalDigits [0, 1, 2, 3, 4, 5, 6, 7, 8, 9]) c"

definition hexDigitVal :: "char \<Rightarrow> int option" where
  "hexDigitVal c =
     map_of (zip ''0123456789abcdefABCDEF''
                 [0, 1, 2, 3, 4, 5, 6, 7, 8, 9, 10, 11, 12, 13, 14, 15, 10, 11, 12, 13, 14, 15]) c"

definition octalDigitVal :: "char \<Rightarrow> int option" where
  "octalDigitVal c = map_of (zip ''01234567'' [0, 1, 2, 3, 4, 5, 6, 7]) c"

definition binaryDigitVal :: "char \<Rightarrow> int option" where
  "binaryDigitVal c = map_of (zip ''01'' [0, 1]) c"

definition isDigit :: "char \<Rightarrow> bool" where
  "isDigit c = (digitVal c \<noteq> None)"

text \<open>The value of a run of digits; \<open>None\<close> when a character is not a digit of the radix.\<close>

fun digitsValue :: "int \<Rightarrow> (char \<Rightarrow> int option) \<Rightarrow> int \<Rightarrow> string \<Rightarrow> int option" where
  "digitsValue radix val acc [] = Some acc"
| "digitsValue radix val acc (c # cs) =
     (case val c of
        None \<Rightarrow> None
      | Some d \<Rightarrow> digitsValue radix val (radix * acc + d) cs)"

text \<open>
  What follows \<^verbatim>\<open>0x\<close>, \<^verbatim>\<open>0o\<close> or \<^verbatim>\<open>0b\<close>: at least one digit of the radix and nothing
  else, or the string is not a number.
\<close>

definition radixLiteral :: "int \<Rightarrow> (char \<Rightarrow> int option) \<Rightarrow> string \<Rightarrow> jsnum option" where
  "radixLiteral radix val ds =
     (if ds = [] then Some NaN
      else (case digitsValue radix val 0 ds of
              None \<Rightarrow> Some NaN
            | Some v \<Rightarrow> safeInteger v))"

text \<open>
  The exponent part of a decimal literal: \<^verbatim>\<open>e\<close> or \<^verbatim>\<open>E\<close>, an optional sign, and at
  least one digit.
\<close>

definition validExponent :: "string \<Rightarrow> bool" where
  "validExponent r =
     (case r of
        [] \<Rightarrow> False
      | e # r1 \<Rightarrow>
          (e = CHR ''e'' \<or> e = CHR ''E'')
          \<and> (let r2 = (case r1 of
                          [] \<Rightarrow> []
                        | s # r3 \<Rightarrow> if s = CHR ''+'' \<or> s = CHR ''-'' then r3 else r1)
             in r2 \<noteq> [] \<and> list_all isDigit r2))"

text \<open>
  The unsigned decimal literals of the grammar of \<^verbatim>\<open>Number\<close>: \<^verbatim>\<open>Infinity\<close>, digits
  with an optional fraction and exponent, or a fraction that starts with the point.
\<close>

definition decimalSpelling :: "string \<Rightarrow> bool" where
  "decimalSpelling u =
     (u = ''Infinity''
      \<or> (let ds1 = takeWhile isDigit u; r1 = dropWhile isDigit u
          in case r1 of
               [] \<Rightarrow> ds1 \<noteq> []
             | c # r \<Rightarrow>
                 if c = CHR ''.''
                 then (let ds2 = takeWhile isDigit r; r2 = dropWhile isDigit r
                       in (ds1 \<noteq> [] \<or> ds2 \<noteq> []) \<and> (r2 = [] \<or> validExponent r2))
                 else ds1 \<noteq> [] \<and> validExponent r1))"

text \<open>
  A trimmed string without radix prefix: an optional sign and a run of digits is an
  integer; another decimal literal is a double that is not modelled; anything else is
  \<^verbatim>\<open>NaN\<close>.
\<close>

definition decimalLiteral :: "string \<Rightarrow> jsnum option" where
  "decimalLiteral t =
     (let (sign, u) = (case t of
                         [] \<Rightarrow> (1, t)
                       | c # r \<Rightarrow> if c = CHR ''-'' then (- 1, r)
                                  else if c = CHR ''+'' then (1, r)
                                  else (1, t))
      in if u \<noteq> [] \<and> list_all isDigit u
         then (case digitsValue 10 digitVal 0 u of
                 None \<Rightarrow> Some NaN
               | Some v \<Rightarrow> safeInteger (sign * v))
         else if decimalSpelling u then None
         else Some NaN)"

text \<open>
  \<^verbatim>\<open>Number(s)\<close> for a string \<open>s\<close>: blanks are stripped from both ends; the empty string
  is 0; \<^verbatim>\<open>0x\<close>, \<^verbatim>\<open>0o\<close> and \<^verbatim>\<open>0b\<close> (in either case) start a hexadecimal, octal or
  binary integer, which takes no sign. A string with a character outside ASCII is not
  modelled.
\<close>

definition Number :: "string \<Rightarrow> jsnum option" where
  "Number s =
     (if \<not> list_all isAscii s then None
      else
        (case trim s of
           [] \<Rightarrow> Some (Num 0)
         | [c] \<Rightarrow> decimalLiteral [c]
         | c0 # c1 # ds \<Rightarrow>
             if c0 = CHR ''0'' \<and> (c1 = CHR ''x'' \<or> c1 = CHR ''X'')
               then radixLiteral 16 hexDigitVal ds
             else if c0 = CHR ''0'' \<and> (c1 = CHR ''o'' \<or> c1 = CHR ''O'')
               then radixLiteral 8 octalDigitVal ds
             else if c0 = CHR ''0'' \<and> (c1 = CHR ''b'' \<or> c1 = CHR ''B'')
               then radixLiteral 2 binaryDigitVal ds
             else decimalLiteral (c0 # c1 # ds)))"

text \<open>\<^verbatim>\<open>s.split(c)\<close> for a one-character separator.\<close>

fun split :: "char \<Rightarrow> string \<Rightarrow> string list" where
  "split c [] = [[]]"
| "split c (x # xs) =
     (if x = c then [] # split c xs
      else (case split c xs of
              [] \<Rightarrow> [[x]]
            | y # ys \<Rightarrow> (x # y) # ys))"

text \<open>
  \<^verbatim>\<open>const [h, m] = t.split(':').map(Number)\<close> followed by \<^verbatim>\<open>h * 60 + m\<close>: the first
  two pieces; a missing second piece is \<^verbatim>\<open>undefined\<close>, which makes the sum \<^verbatim>\<open>NaN\<close>.
  The result is \<open>None\<close> when a piece or the product or the sum is not modelled.
\<close>

definition hoursTimes60Plus :: "jsnum \<Rightarrow> jsnum \<Rightarrow> jsnum option" where
  "hoursTimes60Plus h m =
     (case js_mul h (Num 60) of None \<Rightarrow> None | Some x \<Rightarrow> js_add x m)"

definition toMinutes :: "string \<Rightarrow> jsnum option" where
  "toMinutes t =
     (case map Number (split CHR '':'' t) of
        [] \<Rightarrow> Some NaN
      | [h] \<Rightarrow> (case h of None \<Rightarrow> None | Some hv \<Rightarrow> hoursTimes60Plus hv NaN)
      | h # m # _ \<Rightarrow>
          (case h of
             None \<Rightarrow> None
           | Some hv \<Rightarrow> (case m of None \<Rightarrow> None | Some mv \<Rightarrow> hoursTimes60Plus hv mv)))"

text \<open>
  The strings of the fields \<^verbatim>\<open>quietHours.startTime\<close> and \<^verbatim>\<open>quietHours.endTime\<close>: the
  type holds the strings whose reading is modelled. Among them are all spellings
  \<^verbatim>\<open>HH:mm\<close> and \<^verbatim>\<open>HH:mm:ss\<close> that the time input of the settings page produces, and
  every string that does not read as a number. \<open>timeText\<close> is the string of a field.
\<close>

typedef time_string = "{s. toMinutes s \<noteq> None}"
  morphisms timeText TimeString
proof
  show "[] \<in> {s. toMinutes s \<noteq> None}"
    by (simp add: toMinutes_def Number_def trim_def hoursTimes60Plus_def safeInteger_def)
qed

definition minutesOf :: "time_string \<Rightarrow> jsnum" where
  "minutesOf t = the (toMinutes (timeText t))"

text \<open>
  \<^verbatim>\<open>n.toString().padStart(2, '0')\<close> for a number from 0 to 99: the tens digit and the
  units digit.
\<close>

definition digitChar :: "int \<Rightarrow> char" where
  "digitChar d = decimalDigits ! nat d"

definition padStart2 :: "int \<Rightarrow> string" where
  "padStart2 n = [digitChar (n div 10), digitChar (n mod 10)]"

section \<open>Notification preferences (models/NotificationPreferences.js)\<close>

text \<open>
  A JavaScript object with string keys is a map from strings; a schema path with a fixed
  set of typed leaves is a record. A leaf that can be \<^verbatim>\<open>undefined\<close> is an option.
  Instants (\<^verbatim>\<open>Date\<close>) are integers: milliseconds since the epoch.
\<close>

record channel_settings =
  enabled :: "bool option"
  address :: "string option"
  phoneNumber :: "string option"

record digest_settings =
  frequency :: string
  time :: string
  dayOfWeek :: int

record push_subscription =
  endpoint :: string
  expirationTime :: "int option"
  p256dh :: string
  auth :: string
  deviceType :: "string option"
  browser :: "string option"
  lastUsed :: "int option"

record quiet_hours =
  qh_enabled :: bool
  startTime :: time_string
  endTime :: time_string
  timezone :: string

record preferences =
  prefId :: nat
  user :: string
  channels :: "string \<rightharpoonup> channel_settings"
  categories :: "string \<rightharpoonup> (string \<rightharpoonup> bool)"
  digest :: digest_settings
  pushSubscriptions :: "push_subscription list"
  quietHours :: quiet_hours

text \<open>
  The schema defaults, as \<^verbatim>\<open>new NotificationPreferences({ user })\<close> fills them in;
  \<open>prefId\<close> is the document's \<^verbatim>\<open>_id\<close>.
\<close>

definition defaultChannels :: "string \<rightharpoonup> channel_settings" where
  "defaultChannels =
     [''email'' \<mapsto> \<lparr>enabled = Some True, address = None, phoneNumber = None\<rparr>,
      ''push'' \<mapsto> \<lparr>enabled = Some True, address = None, phoneNumber = None\<rparr>,
      ''inApp'' \<mapsto> \<lparr>enabled = Some True, address = None, phoneNumber = None\<rparr>,
      ''sms'' \<mapsto> \<lparr>enabled = Some False, address = None, phoneNumber = None\<rparr>]"

definition categoryDefaults :: "bool \<Rightarrow> bool \<Rightarrow> bool \<Rightarrow> (string \<rightharpoonup> bool)" where
  "categoryDefaults e p i = [''email'' \<mapsto> e, ''push'' \<mapsto> p, ''inApp'' \<mapsto> i]"

definition defaultCategories :: "string \<rightharpoonup> (string \<rightharpoonup> bool)" where
  "defaultCategories =
     [''social'' \<mapsto> categoryDefaults True True True,
      ''content'' \<mapsto> categoryDefaults False True True,
      ''messaging'' \<mapsto> categoryDefaults True True True,
      ''events'' \<mapsto> categoryDefaults True True True,
      ''system'' \<mapsto> categoryDefaults True True True,
      ''marketing'' \<mapsto> categoryDefaults False False True]"

definition defaultPreferences :: "nat \<Rightarrow> string \<Rightarrow> preferences" where
  "defaultPreferences freshId u =
     \<lparr>prefId = freshId,
      user = u,
      channels = defaultChannels,
      categories = defaultCategories,
      digest = \<lparr>frequency = ''daily'', time = ''09:00'', dayOfWeek = 1\<rparr>,
      pushSubscriptions = [],
      quietHours = \<lparr>qh_enabled = False, startTime = TimeString ''22:00'',
                    endTime = TimeString ''08:00'', timezone = ''UTC''\<rparr>\<rparr>"

subsection \<open>shouldSend\<close>

text \<open>
  The master switch \<^verbatim>\<open>this.channels[channel]?.enabled\<close>: falsy when the channel is
  missing, when its \<^verbatim>\<open>enabled\<close> is undefined and when it is false.
\<close>

definition masterEnabled :: "preferences \<Rightarrow> string \<Rightarrow> bool" where
  "masterEnabled p channel =
     (case channels p channel of
        None \<Rightarrow> False
      | Some c \<Rightarrow> (case enabled c of None \<Rightarrow> False | Some b \<Rightarrow> b))"

text \<open>
  \<^verbatim>\<open>this.categories[category] && this.categories[category][channel] !== undefined\<close>:
  the override when both lookups succeed.
\<close>

definition categoryOverride :: "preferences \<Rightarrow> string \<Rightarrow> string \<Rightarrow> bool option" where
  "categoryOverride p category channel =
     (case categories p category of None \<Rightarrow> None | Some m \<Rightarrow> m channel)"

definition shouldSend :: "preferences \<Rightarrow> string \<Rightarrow> string \<Rightarrow> bool" where
  "shouldSend p channel category =
     (if \<not> masterEnabled p channel then False
      else (case categoryOverride p category channel of
              Some b \<Rightarrow> b
            | None \<Rightarrow> True))"

subsection \<open>isInQuietHours\<close>

definition getUTCHours :: "int \<Rightarrow> int" where
  "getUTCHours t = (t div 3600000) mod 24"

definition getUTCMinutes :: "int \<Rightarrow> int" where
  "getUTCMinutes t = (t div 60000) mod 60"

text \<open>The clock reading \<^verbatim>\<open>new Date()\<close> is the argument \<open>now\<close>.\<close>

definition isInQuietHours :: "preferences \<Rightarrow> int \<Rightarrow> bool" where
  "isInQuietHours p now =
     (if \<not> qh_enabled (quietHours p) then False
      else
        let currentHour = getUTCHours now;
            currentMinute = getUTCMinutes now;
            currentTime = Num (currentHour * 60 + currentMinute);
            startT = minutesOf (startTime (quietHours p));
            endT = minutesOf (endTime (quietHours p))
        in if js_lt startT endT
           then js_ge currentTime startT \<and> js_lt currentTime endT
           else js_ge currentTime startT \<or> js_lt currentTime endT)"

section \<open>Notification records (models/Notification.js)\<close>

record delivery =
  delivered :: bool
  deliveredAt :: "int option"

record push_delivery = delivery +
  error :: "string option"

record email_delivery = push_delivery +
  includeInDigest :: bool

record notification_channels =
  inApp :: delivery
  push :: push_delivery
  email :: email_delivery

record notification_data =
  entityType :: "string option"
  entityId :: "string option"
  url :: "string option"
  image :: "string option"

text \<open>
  The field \<open>nid\<close> is the document's \<^verbatim>\<open>_id\<close>, \<open>ntype\<close> its \<^verbatim>\<open>type\<close> and
  \<open>nchannels\<close> its \<^verbatim>\<open>channels\<close>. An absent \<^verbatim>\<open>expiresAt\<close> is \<open>None\<close>. Of the two
  timestamps that the schema option adds, \<open>createdAt\<close> is kept, since the queries read it.
\<close>

record notification =
  nid :: nat
  recipient :: string
  sender :: "string option"
  ntype :: string
  category :: string
  title :: string
  body :: string
  data :: "notification_data option"
  nchannels :: notification_channels
  status :: string
  read :: bool
  readAt :: "int option"
  clicked :: bool
  clickedAt :: "int option"
  priority :: string
  groupKey :: "string option"
  groupCount :: int
  expiresAt :: "int option"
  tenantId :: "string option"
  scheduledFor :: "int option"
  retryCount :: int
  lastRetryAt :: "int option"
  createdAt :: int

text \<open>
  The database is a reliable store: a collection is the list of its documents, and each
  driver call is a total function on it. \<^verbatim>\<open>save()\<close> of a loaded document replaces the
  stored document of the same \<^verbatim>\<open>_id\<close>; a rejected promise of the driver has no
  counterpart here.
\<close>

definition saveNotification :: "notification \<Rightarrow> notification list \<Rightarrow> notification list" where
  "saveNotification n coll =
     (if nid n \<in> set (map nid coll)
      then map (\<lambda>m. if nid m = nid n then n else m) coll
      else coll @ [n])"

subsection \<open>Instance methods\<close>

text \<open>
  Each \<^verbatim>\<open>new Date()\<close> of a method is one clock reading, passed as an argument. A
  method ends with \<^verbatim>\<open>return this.save()\<close>; the function here gives the document that is
  written, and \<open>saveNotification\<close> puts it into a collection.
\<close>

definition markAsRead :: "int \<Rightarrow> notification \<Rightarrow> notification" where
  "markAsRead now n = n\<lparr>read := True, readAt := Some now, status := ''read''\<rparr>"

definition markAsClicked :: "int \<Rightarrow> int \<Rightarrow> notification \<Rightarrow> notification" where
  "markAsClicked tClick tRead n =
     (let n1 = n\<lparr>clicked := True, clickedAt := Some tClick\<rparr>
      in if \<not> read n1 then n1\<lparr>read := True, readAt := Some tRead\<rparr> else n1)"

definition anyDelivered :: "notification \<Rightarrow> bool" where
  "anyDelivered n =
     (delivered (inApp (nchannels n)) \<or> delivered (push (nchannels n))
      \<or> delivered (email (nchannels n)))"

definition updateOverallStatus :: "notification \<Rightarrow> notification" where
  "updateOverallStatus n =
     (if anyDelivered n \<and> status n = ''pending'' then n\<lparr>status := ''delivered''\<rparr> else n)"

definition markChannelDelivered :: "string \<Rightarrow> int \<Rightarrow> notification \<Rightarrow> notification" where
  "markChannelDelivered channel now n =
     (let ch = nchannels n in
      if channel = ''inApp'' then
        updateOverallStatus
          (n\<lparr>nchannels := ch\<lparr>inApp := (inApp ch)\<lparr>delivered := True, deliveredAt := Some now\<rparr>\<rparr>\<rparr>)
      else if channel = ''push'' then
        updateOverallStatus
          (n\<lparr>nchannels := ch\<lparr>push := (push ch)\<lparr>delivered := True, deliveredAt := Some now\<rparr>\<rparr>\<rparr>)
      else if channel = ''email'' then
        updateOverallStatus
          (n\<lparr>nchannels := ch\<lparr>email := (email ch)\<lparr>delivered := True, deliveredAt := Some now\<rparr>\<rparr>\<rparr>)
      else n)"

subsection \<open>Queries\<close>

text \<open>
  \<^verbatim>\<open>$or: [{ expiresAt: { $exists: false } }, { expiresAt: { $gt: new Date() } }]\<close>
\<close>

definition notExpired :: "int \<Rightarrow> notification \<Rightarrow> bool" where
  "notExpired now n = (case expiresAt n of None \<Rightarrow> True | Some e \<Rightarrow> e > now)"

text \<open>\<^verbatim>\<open>if (category) query.category = category\<close>: no filter for undefined, null and ''.\<close>

definition categoryMatches :: "string option \<Rightarrow> notification \<Rightarrow> bool" where
  "categoryMatches c n =
     (case c of None \<Rightarrow> True | Some s \<Rightarrow> (if s = [] then True else category n = s))"

text \<open>\<^verbatim>\<open>if (types && types.length > 0) query.type = { $in: types }\<close>\<close>

definition typeMatches :: "string list option \<Rightarrow> notification \<Rightarrow> bool" where
  "typeMatches ts n =
     (case ts of None \<Rightarrow> True | Some l \<Rightarrow> (if length l > 0 then ntype n \<in> set l else True))"

text \<open>
  \<^verbatim>\<open>.sort({ createdAt: -1 })\<close>: newest first; documents of equal \<open>createdAt\<close> keep their
  stored order. \<^verbatim>\<open>.limit(k)\<close> with \<open>k = 0\<close> is no limit.
\<close>

definition sortNewestFirst :: "notification list \<Rightarrow> notification list" where
  "sortNewestFirst ns = sort_key (\<lambda>n. - createdAt n) ns"

definition limitDocs :: "nat \<Rightarrow> 'a list \<Rightarrow> 'a list" where
  "limitDocs k xs = (if k = 0 then xs else take k xs)"

record unread_options =
  uo_limit :: "nat option"
  uo_types :: "string list option"
  uo_category :: "string option"

definition getUnread ::
  "notification list \<Rightarrow> string \<Rightarrow> unread_options \<Rightarrow> int \<Rightarrow> notification list" where
  "getUnread coll userId options now =
     (let limit = (case uo_limit options of None \<Rightarrow> 50 | Some l \<Rightarrow> l)
      in limitDocs limit
           (sortNewestFirst
              (filter (\<lambda>n. recipient n = userId \<and> \<not> read n \<and> notExpired now n
                          \<and> typeMatches (uo_types options) n
                          \<and> categoryMatches (uo_category options) n) coll)))"

record list_options =
  lo_limit :: "nat option"
  lo_skip :: "nat option"
  lo_category :: "string option"

definition getAll ::
  "notification list \<Rightarrow> string \<Rightarrow> list_options \<Rightarrow> int \<Rightarrow> notification list" where
  "getAll coll userId options now =
     (let limit = (case lo_limit options of None \<Rightarrow> 20 | Some l \<Rightarrow> l);
          skip = (case lo_skip options of None \<Rightarrow> 0 | Some k \<Rightarrow> k)
      in limitDocs limit
           (drop skip
              (sortNewestFirst
                 (filter (\<lambda>n. recipient n = userId \<and> notExpired now n
                             \<and> categoryMatches (lo_category options) n) coll))))"

definition markAllRead ::
  "notification list \<Rightarrow> string \<Rightarrow> string option \<Rightarrow> int \<Rightarrow> notification list" where
  "markAllRead coll userId cat now =
     map (\<lambda>n. if recipient n = userId \<and> \<not> read n \<and> categoryMatches cat n
              then n\<lparr>read := True, readAt := Some now, status := ''read''\<rparr>
              else n) coll"

definition getUnreadCount :: "notification list \<Rightarrow> string \<Rightarrow> string option \<Rightarrow> nat" where
  "getUnreadCount coll userId cat =
     length (filter (\<lambda>n. recipient n = userId \<and> \<not> read n \<and> categoryMatches cat n) coll)"

definition getDigestNotifications ::
  "notification list \<Rightarrow> string \<Rightarrow> int \<Rightarrow> notification list" where
  "getDigestNotifications coll userId since =
     sortNewestFirst
       (filter (\<lambda>n. recipient n = userId
                   \<and> includeInDigest (email (nchannels n))
                   \<and> \<not> delivered (email (nchannels n))
                   \<and> createdAt n \<ge> since) coll)"

section \<open>Preference documents in the store\<close>

text \<open>The preferences collection is the list of its documents.\<close>

definition findOneByUser :: "preferences list \<Rightarrow> string \<Rightarrow> preferences option" where
  "findOneByUser coll userId = find (\<lambda>p. user p = userId) coll"

text \<open>\<^verbatim>\<open>updateOne(filter, update)\<close> changes the first document that matches.\<close>

fun updateOne :: "('a \<Rightarrow> bool) \<Rightarrow> ('a \<Rightarrow> 'a) \<Rightarrow> 'a list \<Rightarrow> 'a list" where
  "updateOne q f [] = []"
| "updateOne q f (x # xs) = (if q x then f x # xs else x # updateOne q f xs)"

definition savePreferences ::
  "preferences \<Rightarrow> preferences list \<Rightarrow> preferences list" where
  "savePreferences p coll =
     (if prefId p \<in> set (map prefId coll)
      then map (\<lambda>q. if prefId q = prefId p then p else q) coll
      else coll @ [p])"

section \<open>Push delivery (services/pushNotificationService.js)\<close>

record push_service =
  configured :: bool

text \<open>A string of the environment is truthy when it is set and not empty.\<close>

definition truthy :: "string option \<Rightarrow> bool" where
  "truthy v = (case v of None \<Rightarrow> False | Some s \<Rightarrow> s \<noteq> [])"

text \<open>
  The constructor sets \<^verbatim>\<open>configured = false\<close> and calls \<^verbatim>\<open>initialize()\<close>, which reads
  \<^verbatim>\<open>VAPID_PUBLIC_KEY\<close> and \<^verbatim>\<open>VAPID_PRIVATE_KEY\<close>.
\<close>

definition initialize :: "string option \<Rightarrow> string option \<Rightarrow> push_service" where
  "initialize publicVapidKey privateVapidKey =
     (if truthy publicVapidKey \<and> truthy privateVapidKey
      then \<lparr>configured = True\<rparr>
      else \<lparr>configured = False\<rparr>)"

record push_payload =
  pp_title :: string
  pp_body :: string
  pp_icon :: string
  pp_badge :: string
  pp_url :: string
  pp_data :: "notification_data option"
  pp_timestamp :: int

text \<open>\<^verbatim>\<open>notification.data?.image || '/icon-192x192.png'\<close> and the same for the url.\<close>

definition orDefault :: "string option \<Rightarrow> string \<Rightarrow> string" where
  "orDefault v d = (case v of None \<Rightarrow> d | Some s \<Rightarrow> (if s = [] then d else s))"

definition buildPayload :: "notification \<Rightarrow> int \<Rightarrow> push_payload" where
  "buildPayload n now =
     \<lparr>pp_title = title n,
      pp_body = body n,
      pp_icon = orDefault (case data n of None \<Rightarrow> None | Some d \<Rightarrow> image d) ''/icon-192x192.png'',
      pp_badge = ''/badge-72x72.png'',
      pp_url = orDefault (case data n of None \<Rightarrow> None | Some d \<Rightarrow> url d) ''/'',
      pp_data = data n,
      pp_timestamp = now\<rparr>"

text \<open>
  What \<^verbatim>\<open>webpush.sendNotification(subscription, payload)\<close> does is the push transport's
  answer: it resolves, or it throws an error with an optional \<^verbatim>\<open>statusCode\<close> and a
  message.
\<close>

datatype push_outcome = Accepted | Rejected "int option" string

type_synonym push_transport = "push_subscription \<Rightarrow> push_payload \<Rightarrow> push_outcome"

record endpoint_result =
  r_success :: bool
  r_endpoint :: string
  r_error :: "string option"

text \<open>
  The loop over the subscriptions, with its two accumulators \<^verbatim>\<open>results\<close> and
  \<^verbatim>\<open>invalidEndpoints\<close>.
\<close>

fun sendToAll ::
  "push_transport \<Rightarrow> push_payload \<Rightarrow> push_subscription list \<Rightarrow> endpoint_result list
   \<Rightarrow> string list \<Rightarrow> endpoint_result list \<times> string list" where
  "sendToAll transport payload [] results invalidEndpoints = (results, invalidEndpoints)"
| "sendToAll transport payload (subscription # rest) results invalidEndpoints =
     (case transport subscription payload of
        Accepted \<Rightarrow>
          sendToAll transport payload rest
            (results @ [\<lparr>r_success = True, r_endpoint = endpoint subscription, r_error = None\<rparr>])
            invalidEndpoints
      | Rejected statusCode message \<Rightarrow>
          sendToAll transport payload rest
            (results @ [\<lparr>r_success = False, r_endpoint = endpoint subscription,
                          r_error = Some message\<rparr>])
            (if statusCode = Some 410 \<or> statusCode = Some 404
             then invalidEndpoints @ [endpoint subscription]
             else invalidEndpoints))"

text \<open>
  The classification of one attempt as the source's \<^verbatim>\<open>catch\<close> block makes it: the
  attempt failed with status 410 or 404.
\<close>

definition permanentlyInvalid :: "push_transport \<Rightarrow> push_payload \<Rightarrow> push_subscription \<Rightarrow> bool" where
  "permanentlyInvalid transport payload s =
     (case transport s payload of
        Accepted \<Rightarrow> False
      | Rejected statusCode message \<Rightarrow> statusCode = Some 410 \<or> statusCode = Some 404)"

text \<open>The attempt resolved: the \<^verbatim>\<open>try\<close> block pushes a result with \<^verbatim>\<open>success: true\<close>.\<close>

definition accepted :: "push_transport \<Rightarrow> push_payload \<Rightarrow> push_subscription \<Rightarrow> bool" where
  "accepted transport payload s = (transport s payload = Accepted)"

text \<open>\<^verbatim>\<open>$pull: { pushSubscriptions: { endpoint: { $in: endpoints } } }\<close> on one document.\<close>

definition removeInvalidSubscriptions ::
  "preferences list \<Rightarrow> nat \<Rightarrow> string list \<Rightarrow> preferences list" where
  "removeInvalidSubscriptions coll preferenceId endpoints =
     updateOne (\<lambda>p. prefId p = preferenceId)
       (\<lambda>p. p\<lparr>pushSubscriptions :=
                 filter (\<lambda>s. endpoint s \<notin> set endpoints) (pushSubscriptions p)\<rparr>)
       coll"

record push_result =
  success :: bool
  resultError :: "string option"
  deliveredTo :: "nat option"
  total :: "nat option"

text \<open>
  \<open>sendToUser\<close> returns the object of the source (\<open>resultError\<close> is its \<^verbatim>\<open>error\<close> key; a
  key that the object does not have is \<open>None\<close>), the per-endpoint results in the order
  of the attempts, and the preferences collection after the pruning.
\<close>

definition sendToUser ::
  "push_service \<Rightarrow> push_transport \<Rightarrow> int \<Rightarrow> preferences list \<Rightarrow> preferences
   \<Rightarrow> notification \<Rightarrow> push_result \<times> endpoint_result list \<times> preferences list" where
  "sendToUser svc transport now coll userPreferences n =
     (if \<not> configured svc
      then (\<lparr>success = False, resultError = Some ''Not configured'',
             deliveredTo = None, total = None\<rparr>, [], coll)
      else
        let payload = buildPayload n now;
            subscriptions = pushSubscriptions userPreferences;
            (results, invalidEndpoints) = sendToAll transport payload subscriptions [] [];
            coll' = (if length invalidEndpoints > 0
                     then removeInvalidSubscriptions coll (prefId userPreferences) invalidEndpoints
                     else coll);
            successCount = length (filter r_success results)
        in (\<lparr>success = successCount > 0, resultError = None,
             deliveredTo = Some successCount, total = Some (length subscriptions)\<rparr>,
            results, coll'))"

section \<open>Dispatcher (class NotificationDispatcher)\<close>

record dispatch_payload =
  p_sender :: "string option"
  p_type :: string
  p_category :: "string option"
  p_title :: string
  p_body :: string
  p_data :: "notification_data option"
  p_priority :: "string option"
  p_groupKey :: "string option"
  p_expiresAt :: "int option"
  p_tenantId :: "string option"

text \<open>\<^verbatim>\<open>map[type] || 'system'\<close> over the own keys of the table.\<close>

definition inferCategory :: "string \<Rightarrow> string" where
  "inferCategory t =
     (case map_of
        [(''like'', ''social''), (''comment'', ''social''), (''follow'', ''social''),
         (''mention'', ''social''), (''reply'', ''social''), (''share'', ''content''),
         (''post'', ''content''), (''message'', ''messaging''), (''event'', ''events''),
         (''announcement'', ''system''), (''system'', ''system''), (''reminder'', ''system''),
         (''achievement'', ''system'')] t of
        Some c \<Rightarrow> c
      | None \<Rightarrow> ''system'')"

text \<open>
  \<^verbatim>\<open>new Notification({...})\<close> with the schema defaults. The \<^verbatim>\<open>_id\<close> is fresh, and
  \<open>createdAt\<close> is the stamp that the first \<^verbatim>\<open>save()\<close> writes; both are arguments.
\<close>

definition newNotification :: "nat \<Rightarrow> int \<Rightarrow> string \<Rightarrow> dispatch_payload \<Rightarrow> notification" where
  "newNotification freshId stamp recipientId payload =
     \<lparr>nid = freshId,
      recipient = recipientId,
      sender = p_sender payload,
      ntype = p_type payload,
      category = orDefault (p_category payload) (inferCategory (p_type payload)),
      title = p_title payload,
      body = p_body payload,
      data = p_data payload,
      nchannels =
        \<lparr>inApp = \<lparr>delivered = False, deliveredAt = None\<rparr>,
         push = \<lparr>delivered = False, deliveredAt = None, error = None\<rparr>,
         email = \<lparr>delivered = False, deliveredAt = None, error = None,
                  includeInDigest = True\<rparr>\<rparr>,
      status = ''pending'',
      read = False,
      readAt = None,
      clicked = False,
      clickedAt = None,
      priority = orDefault (p_priority payload) ''normal'',
      groupKey = p_groupKey payload,
      groupCount = 1,
      expiresAt = p_expiresAt payload,
      tenantId = p_tenantId payload,
      scheduledFor = None,
      retryCount = 0,
      lastRetryAt = None,
      createdAt = stamp\<rparr>"

record channel_decision =
  d_inApp :: bool
  d_push :: bool
  d_email :: bool

text \<open>Step 3 of \<^verbatim>\<open>send\<close>: the object \<^verbatim>\<open>channels\<close>.\<close>

definition decideChannels :: "preferences \<Rightarrow> notification \<Rightarrow> channel_decision" where
  "decideChannels p n =
     \<lparr>d_inApp = shouldSend p ''inApp'' (category n),
      d_push = shouldSend p ''push'' (category n),
      d_email = shouldSend p ''email'' (category n)\<rparr>"

text \<open>Step 4: quiet hours.\<close>

definition quietHoursGate ::
  "preferences \<Rightarrow> notification \<Rightarrow> int \<Rightarrow> channel_decision \<Rightarrow> channel_decision" where
  "quietHoursGate p n now c =
     (if d_push c \<and> isInQuietHours p now \<and> priority n \<noteq> ''urgent''
      then c\<lparr>d_push := False\<rparr>
      else c)"

definition setIncludeInDigest :: "bool \<Rightarrow> notification \<Rightarrow> notification" where
  "setIncludeInDigest b n =
     n\<lparr>nchannels := (nchannels n)\<lparr>email := (email (nchannels n))\<lparr>includeInDigest := b\<rparr>\<rparr>\<rparr>"

text \<open>Step 7: immediate e-mail or digest.\<close>

definition immediateEmail :: "preferences \<Rightarrow> channel_decision \<Rightarrow> notification \<Rightarrow> bool" where
  "immediateEmail p c n =
     (d_email c \<and> (frequency (digest p) = ''never'' \<or> priority n = ''urgent''))"

definition emailStep ::
  "preferences \<Rightarrow> int \<Rightarrow> channel_decision \<Rightarrow> notification \<Rightarrow> notification" where
  "emailStep p now c n =
     (if d_email c then
        (if frequency (digest p) = ''never'' \<or> priority n = ''urgent''
         then setIncludeInDigest False (markChannelDelivered ''email'' now n)
         else setIncludeInDigest True n)
      else setIncludeInDigest False n)"

text \<open>
  What a dispatch does to the outside: the socket emission, the start of the push
  fan-out, and a rejected promise that nobody observes. The fan-out runs detached (its
  promise is not awaited); what it does is \<open>sendToUser\<close>, and its completion is not part
  of the result of \<open>send\<close>.
\<close>

datatype error = ParallelSaveError

datatype effect =
  SocketSend string string notification
| PushFanOut preferences notification
| UnobservedRejection error

fun isPushFanOut :: "effect \<Rightarrow> bool" where
  "isPushFanOut (PushFanOut p n) = True"
| "isPushFanOut (SocketSend r ev n) = False"
| "isPushFanOut (UnobservedRejection e) = False"

record database =
  preferencesColl :: "preferences list"
  notificationsColl :: "notification list"

text \<open>
  The surroundings of one dispatch: the fresh \<^verbatim>\<open>_id\<close>s, the clock readings in the
  order of the source, and the socket service's \<^verbatim>\<open>isUserOnline\<close>.
\<close>

record dispatch_env =
  freshPrefId :: nat
  freshNotificationId :: nat
  tQuietHours :: int
  tInApp :: int
  tEmail :: int
  tSave :: int
  isUserOnline :: "string \<Rightarrow> bool"

text \<open>
  The outcome of a dispatch: \<open>result\<close> is what the call gives its caller, the
  notification or the error that it throws; \<open>written\<close> is the document as it stands
  when the synchronous part of \<^verbatim>\<open>send\<close> is over, which is the document that a save
  writes; \<open>decided\<close> is the object \<^verbatim>\<open>channels\<close> after step 4.
\<close>

record send_outcome =
  result :: "error + notification"
  written :: notification
  decided :: channel_decision
  effects :: "effect list"
  after :: database

text \<open>Step 1: the stored preferences, or a new stored document of defaults.\<close>

definition loadOrCreate ::
  "nat \<Rightarrow> preferences list \<Rightarrow> string \<Rightarrow> preferences \<times> preferences list" where
  "loadOrCreate freshId coll recipientId =
     (case findOneByUser coll recipientId of
        Some p \<Rightarrow> (p, coll)
      | None \<Rightarrow> (defaultPreferences freshId recipientId,
                 savePreferences (defaultPreferences freshId recipientId) coll))"

text \<open>
  The saves of one dispatch. \<^verbatim>\<open>markChannelDelivered\<close> ends with \<^verbatim>\<open>this.save()\<close>, and
  \<^verbatim>\<open>send\<close> does not await it: the save is under way while \<^verbatim>\<open>send\<close> goes on, and it
  writes the document once the synchronous part of \<^verbatim>\<open>send\<close> is over. A \<^verbatim>\<open>save()\<close> of a
  document whose save is under way is rejected with \<^verbatim>\<open>ParallelSaveError\<close>. So
  \<^item> when neither the in-app nor the immediate e-mail branch has called
    \<^verbatim>\<open>markChannelDelivered\<close>, the awaited save of step 8 writes the document and \<^verbatim>\<open>send\<close>
    returns it;
  \<^item> when one of them has, its save writes the document, the awaited save of step 8 is
    rejected, and \<^verbatim>\<open>send\<close> throws the error (its \<^verbatim>\<open>catch\<close> logs and rethrows);
  \<^item> when both have, the save of the second call is rejected as well, and nobody
    observes that promise. What the process does with it is outside the model.
\<close>

definition send :: "dispatch_env \<Rightarrow> database \<Rightarrow> string \<Rightarrow> dispatch_payload \<Rightarrow> send_outcome" where
  "send env db recipientId payload =
     (let (preferences, coll) = loadOrCreate (freshPrefId env) (preferencesColl db) recipientId;
          notification0 = newNotification (freshNotificationId env) (tSave env) recipientId payload;
          channels0 = decideChannels preferences notification0;
          channels1 = quietHoursGate preferences notification0 (tQuietHours env) channels0;
          liveInApp = (d_inApp channels1 \<and> isUserOnline env recipientId);
          (notification1, effects1) =
             (if liveInApp
              then (markChannelDelivered ''inApp'' (tInApp env) notification0,
                    [SocketSend recipientId ''notification:new'' notification0])
              else (notification0, []));
          effects2 = (if d_push channels1 then [PushFanOut preferences notification1] else []);
          immediate = immediateEmail preferences channels1 notification1;
          notification2 = emailStep preferences (tEmail env) channels1 notification1;
          effects3 = (if liveInApp \<and> immediate
                      then [UnobservedRejection ParallelSaveError] else [])
      in \<lparr>result = (if liveInApp \<or> immediate then Inl ParallelSaveError
                   else Inr notification2),
          written = notification2,
          decided = channels1,
          effects = effects1 @ effects2 @ effects3,
          after = \<lparr>preferencesColl = coll,
                   notificationsColl = saveNotification notification2 (notificationsColl db)\<rparr>\<rparr>)"

section \<open>Digest scheduler (classes DigestScheduler and EmailDigestService)\<close>

text \<open>
  The populated \<^verbatim>\<open>user\<close> of a preferences document; a missing e-mail address is the
  empty string.
\<close>

record account =
  acc_id :: string
  acc_email :: string

record digest_mail =
  mail_to :: string
  mail_subject :: string
  mail_items :: "notification list"

text \<open>
  The e-mail transport resolves (\<open>True\<close>) or throws (\<open>False\<close>). The markup of the
  message is not modelled: a mail carries the notifications it is rendered from.
\<close>

type_synonym mail_transport = "digest_mail \<Rightarrow> bool"

text \<open>The result is \<^verbatim>\<open>undefined\<close> (\<open>None\<close>), \<^verbatim>\<open>true\<close> or \<^verbatim>\<open>false\<close>.\<close>

definition digestMail :: "account \<Rightarrow> notification list \<Rightarrow> string \<Rightarrow> digest_mail" where
  "digestMail u notifications freq =
     \<lparr>mail_to = acc_email u,
      mail_subject = ''Your '' @ freq @ '' update on College Media'',
      mail_items = notifications\<rparr>"

definition sendDigest ::
  "mail_transport \<Rightarrow> account \<Rightarrow> notification list \<Rightarrow> string \<Rightarrow> bool option" where
  "sendDigest transport u notifications freq =
     (if length notifications = 0 then None
      else if transport (digestMail u notifications freq) then Some True
      else Some False)"

text \<open>
  \<^verbatim>\<open>updateMany({ _id: { $in: ids } }, { $set: { 'channels.email.delivered': true,
  'channels.email.deliveredAt': new Date() } })\<close>
\<close>

definition setEmailDelivered :: "int \<Rightarrow> notification \<Rightarrow> notification" where
  "setEmailDelivered t n =
     n\<lparr>nchannels := (nchannels n)\<lparr>email :=
         (email (nchannels n))\<lparr>delivered := True, deliveredAt := Some t\<rparr>\<rparr>\<rparr>"

definition updateManyDelivered :: "nat list \<Rightarrow> int \<Rightarrow> notification list \<Rightarrow> notification list" where
  "updateManyDelivered ids t coll =
     map (\<lambda>n. if nid n \<in> set ids then setEmailDelivered t n else n) coll"

text \<open>
  \<^verbatim>\<open>since.setDate(since.getDate() - k)\<close> moves an instant back by \<open>k\<close> days of the
  local calendar of the process, which depends on the time zone of the host: a local day
  has 23 or 25 hours when the clocks change. The calendar is a parameter: \<open>cal k t\<close> is
  the instant that \<^verbatim>\<open>setDate\<close> leaves when it moves \<open>t\<close> back by \<open>k\<close> local days. In a
  process whose local time is UTC, every day has 86400000 ms.
\<close>

type_synonym calendar = "int \<Rightarrow> int \<Rightarrow> int"

definition utcCalendar :: calendar where
  "utcCalendar k t = t - k * 86400000"

definition lookbackStart :: "calendar \<Rightarrow> string \<Rightarrow> int \<Rightarrow> int" where
  "lookbackStart cal freq now = (if freq = ''daily'' then cal 1 now else cal 7 now)"

datatype digest_event =
  NoDigest
| DigestSent "notification list"
| DigestFailed "notification list"

text \<open>
  One run for one user: \<open>now\<close> is the clock reading that the run takes for its window,
  \<open>tUpdate\<close> the reading of the batch update. The result is the collection after the run
  and what happened to the digest.
\<close>

definition sendDigestForUser ::
  "calendar \<Rightarrow> mail_transport \<Rightarrow> notification list \<Rightarrow> account option \<Rightarrow> string \<Rightarrow> int \<Rightarrow> int
   \<Rightarrow> notification list \<times> digest_event" where
  "sendDigestForUser cal transport coll usr freq now tUpdate =
     (case usr of
        None \<Rightarrow> (coll, NoDigest)
      | Some u \<Rightarrow>
          if acc_email u = [] then (coll, NoDigest)
          else
            let since = lookbackStart cal freq now;
                notifications = getDigestNotifications coll (acc_id u) since
            in if length notifications > 0 then
                 (case sendDigest transport u notifications freq of
                    Some True \<Rightarrow>
                      (updateManyDelivered (map nid notifications) tUpdate coll,
                       DigestSent notifications)
                  | _ \<Rightarrow> (coll, DigestFailed notifications))
               else (coll, NoDigest))"

text \<open>
  A sequence of runs of one process on the same collection, each with its own clock
  readings, and the digests they produce.
\<close>

record digest_run =
  run_transport :: mail_transport
  run_user :: "account option"
  run_frequency :: string
  run_now :: int
  run_tUpdate :: int

fun digestRuns ::
  "calendar \<Rightarrow> notification list \<Rightarrow> digest_run list \<Rightarrow> notification list \<times> digest_event list" where
  "digestRuns cal coll [] = (coll, [])"
| "digestRuns cal coll (r # rs) =
     (let (coll1, ev) = sendDigestForUser cal (run_transport r) coll (run_user r)
                          (run_frequency r) (run_now r) (run_tUpdate r);
          (coll2, evs) = digestRuns cal coll1 rs
      in (coll2, ev # evs))"

fun sentIds :: "digest_event \<Rightarrow> nat list" where
  "sentIds (DigestSent ns) = map nid ns"
| "sentIds _ = []"

text \<open>
  The filter of the daily scan: \<^verbatim>\<open>'digest.frequency': 'daily'\<close> and \<^verbatim>\<open>'digest.time'\<close>
  matching \<^verbatim>\<open>^HH:\<close>, where \<^verbatim>\<open>HH\<close> is the current UTC hour padded to two digits.
\<close>

definition dailyDigestDue :: "preferences \<Rightarrow> int \<Rightarrow> bool" where
  "dailyDigestDue p now =
     (frequency (digest p) = ''daily''
      \<and> take 3 (time (digest p)) = padStart2 (getUTCHours now) @ '':'')"

section \<open>Preferences update (notificationController.updatePreferences)\<close>

text \<open>
  The request body: each section is absent or an object with some of the section's keys.
  A section of channels or of categories maps a key to the object given for it.
\<close>

record digest_update =
  u_frequency :: "string option"
  u_time :: "string option"
  u_dayOfWeek :: "int option"

record quiet_hours_update =
  u_enabled :: "bool option"
  u_startTime :: "time_string option"
  u_endTime :: "time_string option"
  u_timezone :: "string option"

record preferences_update =
  u_channels :: "(string \<rightharpoonup> channel_settings) option"
  u_categories :: "(string \<rightharpoonup> (string \<rightharpoonup> bool)) option"
  u_digest :: "digest_update option"
  u_quietHours :: "quiet_hours_update option"

text \<open>
  \<^verbatim>\<open>Object.assign(target, source)\<close> copies each key of the source onto the target: on a
  map this is \<open>target ++ source\<close>, and the value of a copied key is the source's object
  as a whole. On a section with typed leaves it sets the leaves that the source has.
  What the schema does to a document besides (it drops keys that it does not declare,
  and fills in defaults again when a document is loaded) is not modelled.
\<close>

definition assignDigest :: "digest_settings \<Rightarrow> digest_update \<Rightarrow> digest_settings" where
  "assignDigest d u =
     \<lparr>frequency = (case u_frequency u of None \<Rightarrow> frequency d | Some v \<Rightarrow> v),
      time = (case u_time u of None \<Rightarrow> time d | Some v \<Rightarrow> v),
      dayOfWeek = (case u_dayOfWeek u of None \<Rightarrow> dayOfWeek d | Some v \<Rightarrow> v)\<rparr>"

definition assignQuietHours :: "quiet_hours \<Rightarrow> quiet_hours_update \<Rightarrow> quiet_hours" where
  "assignQuietHours q u =
     \<lparr>qh_enabled = (case u_enabled u of None \<Rightarrow> qh_enabled q | Some v \<Rightarrow> v),
      startTime = (case u_startTime u of None \<Rightarrow> startTime q | Some v \<Rightarrow> v),
      endTime = (case u_endTime u of None \<Rightarrow> endTime q | Some v \<Rightarrow> v),
      timezone = (case u_timezone u of None \<Rightarrow> timezone q | Some v \<Rightarrow> v)\<rparr>"

definition applyUpdates :: "preferences \<Rightarrow> preferences_update \<Rightarrow> preferences" where
  "applyUpdates p updates =
     (let p1 = (case u_channels updates of
                  None \<Rightarrow> p
                | Some c \<Rightarrow> p\<lparr>channels := channels p ++ c\<rparr>);
          p2 = (case u_categories updates of
                  None \<Rightarrow> p1
                | Some c \<Rightarrow> p1\<lparr>categories := categories p1 ++ c\<rparr>);
          p3 = (case u_digest updates of
                  None \<Rightarrow> p2
                | Some d \<Rightarrow> p2\<lparr>digest := assignDigest (digest p2) d\<rparr>);
          p4 = (case u_quietHours updates of
                  None \<Rightarrow> p3
                | Some q \<Rightarrow> p3\<lparr>quietHours := assignQuietHours (quietHours p3) q\<rparr>)
      in p4)"

text \<open>
  The handler: the stored document of the user (or a new one of defaults), the updates
  applied, the document saved; the response carries the saved document.
\<close>

definition updatePreferences ::
  "nat \<Rightarrow> preferences list \<Rightarrow> string \<Rightarrow> preferences_update \<Rightarrow> preferences list \<times> preferences" where
  "updatePreferences freshId coll userId updates =
     (let preferences = (case findOneByUser coll userId of
                           Some p \<Rightarrow> p
                         | None \<Rightarrow> defaultPreferences freshId userId);
          saved = applyUpdates preferences updates
      in (savePreferences saved coll, saved))"

section \<open>The life of a notification record\<close>

text \<open>
  The writes that the source makes to a stored notification: the three instance
  methods, the dispatcher's assignment to \<^verbatim>\<open>includeInDigest\<close>, and the per-document
  effect of the two batch updates (\<open>markAllRead\<close> writes what \<open>markAsRead\<close> writes).
\<close>

datatype notification_op =
  MarkAsRead int
| MarkAsClicked int int
| MarkChannelDelivered string int
| SetIncludeInDigest bool
| SetEmailDelivered int

fun applyOp :: "notification_op \<Rightarrow> notification \<Rightarrow> notification" where
  "applyOp (MarkAsRead t) n = markAsRead t n"
| "applyOp (MarkAsClicked t1 t2) n = markAsClicked t1 t2 n"
| "applyOp (MarkChannelDelivered c t) n = markChannelDelivered c t n"
| "applyOp (SetIncludeInDigest b) n = setIncludeInDigest b n"
| "applyOp (SetEmailDelivered t) n = setEmailDelivered t n"

definition lifecycle :: "notification \<Rightarrow> notification_op list \<Rightarrow> notification" where
  "lifecycle n ops = foldl (\<lambda>m op. applyOp op m) n ops"

section \<open>Auxiliary definitions for the proofs\<close>

text \<open>The entry that one pass of the loop in \<open>sendToAll\<close> appends to \<^verbatim>\<open>results\<close>.\<close>

definition resultOf :: "push_transport \<Rightarrow> push_payload \<Rightarrow> push_subscription \<Rightarrow> endpoint_result" where
  "resultOf transport payload s =
     (case transport s payload of
        Accepted \<Rightarrow> \<lparr>r_success = True, r_endpoint = endpoint s, r_error = None\<rparr>
      | Rejected statusCode message \<Rightarrow>
          \<lparr>r_success = False, r_endpoint = endpoint s, r_error = Some message\<rparr>)"

text \<open>The ids of the stored records whose e-mail channel is marked delivered.\<close>

definition deliveredIds :: "notification list \<Rightarrow> nat set" where
  "deliveredIds coll = set (map nid (filter (\<lambda>n. delivered (email (nchannels n))) coll))"

section \<open>Concrete inputs\<close>

text \<open>
  A user with the default preferences and quiet hours from 22:00 to 08:00; a dispatch at
  23:00 UTC of day 0 to that user, who is online; the same user with the e-mail
  channel switched off; a user with three push endpoints, the second of which answers 410.
\<close>

definition quietPreferences :: preferences where
  "quietPreferences =
     (defaultPreferences 1 ''u'')\<lparr>quietHours :=
        \<lparr>qh_enabled = True, startTime = TimeString ''22:00'',
         endTime = TimeString ''08:00'', timezone = ''UTC''\<rparr>\<rparr>"

definition exampleEnv :: dispatch_env where
  "exampleEnv =
     \<lparr>freshPrefId = 2, freshNotificationId = 10, tQuietHours = 82800000, tInApp = 82800001,
      tEmail = 82800002, tSave = 82800003, isUserOnline = (\<lambda>u. True)\<rparr>"

definition exampleDb :: database where
  "exampleDb = \<lparr>preferencesColl = [quietPreferences], notificationsColl = []\<rparr>"

definition examplePayload :: "string option \<Rightarrow> dispatch_payload" where
  "examplePayload prio =
     \<lparr>p_sender = None, p_type = ''message'', p_category = None, p_title = ''Hello'',
      p_body = ''World'', p_data = None, p_priority = prio, p_groupKey = None,
      p_expiresAt = None, p_tenantId = None\<rparr>"

definition subscriptionAt :: "string \<Rightarrow> push_subscription" where
  "subscriptionAt e =
     \<lparr>endpoint = e, expirationTime = None, p256dh = ''k'', auth = ''a'', deviceType = None,
      browser = None, lastUsed = None\<rparr>"

definition threeEndpoints :: preferences where
  "threeEndpoints =
     (defaultPreferences 1 ''u'')\<lparr>pushSubscriptions :=
        [subscriptionAt ''e1'', subscriptionAt ''e2'', subscriptionAt ''e3'']\<rparr>"

definition goneAtE2 :: push_transport where
  "goneAtE2 s payload = (if endpoint s = ''e2'' then Rejected (Some 410) ''Gone'' else Accepted)"

definition exampleNotification :: notification where
  "exampleNotification = newNotification 10 5000 ''u'' (examplePayload None)"

definition emailOffPreferences :: preferences where
  "emailOffPreferences =
     quietPreferences\<lparr>channels :=
        (channels quietPreferences)(''email'' \<mapsto>
           \<lparr>enabled = Some False, address = None, phoneNumber = None\<rparr>)\<rparr>"

definition emailOffDb :: database where
  "emailOffDb = \<lparr>preferencesColl = [emailOffPreferences], notificationsColl = []\<rparr>"

text \<open>
  A notification that expired at 6000; a user whose e-mail channel carries an address,
  and the update that the settings page sends when the e-mail toggle is switched off.
\<close>

definition expiredNotification :: notification where
  "expiredNotification =
     newNotification 11 5000 ''u'' ((examplePayload None)\<lparr>p_expiresAt := Some 6000\<rparr>)"

definition noUnreadOptions :: unread_options where
  "noUnreadOptions = \<lparr>uo_limit = None, uo_types = None, uo_category = None\<rparr>"

definition noListOptions :: list_options where
  "noListOptions = \<lparr>lo_limit = None, lo_skip = None, lo_category = None\<rparr>"

definition addressedPreferences :: preferences where
  "addressedPreferences =
     (defaultPreferences 1 ''u'')\<lparr>channels :=
        defaultChannels(''email'' \<mapsto>
          \<lparr>enabled = Some True, address = Some ''me@example.org'', phoneNumber = None\<rparr>)\<rparr>"

definition toggleEmailOff :: preferences_update where
  "toggleEmailOff =
     \<lparr>u_channels = Some [''email'' \<mapsto> \<lparr>enabled = Some False, address = None,
                                          phoneNumber = None\<rparr>],
      u_categories = None, u_digest = None, u_quietHours = None\<rparr>"

text \<open>
  The account of user \<open>u\<close>; an e-mail transport that throws and one that resolves; the
  collection after the dispatch of a message of normal priority to \<open>u\<close> at 23:00 UTC of
  day 0. The daily digest of \<open>u\<close> is due at 09:00: 118800000 is 09:00 UTC of day 1 and
  205200000 is 09:00 UTC of day 2.
\<close>

definition exampleAccount :: account where
  "exampleAccount = \<lparr>acc_id = ''u'', acc_email = ''u@example.org''\<rparr>"

definition failingMail :: mail_transport where
  "failingMail m = False"

definition workingMail :: mail_transport where
  "workingMail m = True"

definition pendingColl :: "notification list" where
  "pendingColl = notificationsColl (after (send exampleEnv exampleDb ''u'' (examplePayload None)))"

definition morningRun :: digest_run where
  "morningRun =
     \<lparr>run_transport = workingMail, run_user = Some exampleAccount, run_frequency = ''daily'',
      run_now = 118800000, run_tUpdate = 118800001\<rparr>"

text \<open>
  The same dispatch to a user who is offline; quiet hours from 09:15 to 17:45; the
  weekly digest of \<open>u\<close> at 09:00 UTC of day 1.
\<close>

definition offlineEnv :: dispatch_env where
  "offlineEnv = exampleEnv\<lparr>isUserOnline := (\<lambda>u. False)\<rparr>"

definition officePreferences :: preferences where
  "officePreferences =
     (defaultPreferences 1 ''u'')\<lparr>quietHours :=
        \<lparr>qh_enabled = True, startTime = TimeString ''09:15'',
         endTime = TimeString ''17:45'', timezone = ''UTC''\<rparr>\<rparr>"

definition weeklyRun :: digest_run where
  "weeklyRun = morningRun\<lparr>run_frequency := ''weekly''\<rparr>"

section \<open>Facts about the time arithmetic\<close>

text \<open>
  The value that \<open>isInQuietHours\<close> compares, \<^verbatim>\<open>currentHour * 60 + currentMinute\<close>, is
  the number of whole minutes since UTC midnight.
\<close>

lemma minutes_since_midnight:
  "getUTCHours now * 60 + getUTCMinutes now = (now div 60000) mod 1440"
proof -
  define m where "m = now div 60000"
  have h: "now div 3600000 = m div 60"
    unfolding m_def by (simp add: zdiv_zmult2_eq[symmetric])
  have "(m div 60) mod 24 * 60 + m mod 60 = m mod 1440"
    using zmod_zmult2_eq[of 24 m 60] by simp
  then show ?thesis
    unfolding getUTCHours_def getUTCMinutes_def h m_def[symmetric] by simp
qed

lemma timeText_TimeString: "toMinutes s \<noteq> None \<Longrightarrow> timeText (TimeString s) = s"
  by (simp add: TimeString_inverse)

lemma toMinutes_timeText: "toMinutes (timeText t) \<noteq> None"
  using timeText[of t] by simp

text \<open>What the characters of \<open>padStart2\<close> are to the reader of numbers.\<close>

lemma digitChar_props:
  assumes "0 \<le> d" "d \<le> 9"
  shows "digitVal (digitChar d) = Some d"
    and "isDigit (digitChar d)"
    and "isAscii (digitChar d)"
    and "\<not> isBlank (digitChar d)"
    and "digitChar d \<notin> set '':+-xXoObB''"
proof -
  from assms
  have "d = 0 \<or> d = 1 \<or> d = 2 \<or> d = 3 \<or> d = 4 \<or> d = 5 \<or> d = 6 \<or> d = 7 \<or> d = 8 \<or> d = 9"
    by arith
  then have "digitVal (digitChar d) = Some d \<and> isDigit (digitChar d) \<and> isAscii (digitChar d)
      \<and> \<not> isBlank (digitChar d) \<and> digitChar d \<notin> set '':+-xXoObB''"
    by (elim disjE)
       (simp_all add: digitVal_def isDigit_def isAscii_def isBlank_def digitChar_def
          decimalDigits_def)
  then show "digitVal (digitChar d) = Some d"
    and "isDigit (digitChar d)"
    and "isAscii (digitChar d)"
    and "\<not> isBlank (digitChar d)"
    and "digitChar d \<notin> set '':+-xXoObB''"
    by simp_all
qed

lemma Number_two_digits:
  assumes a: "0 \<le> a" "a \<le> 9" and b: "0 \<le> b" "b \<le> 9"
  shows "Number [digitChar a, digitChar b] = Some (Num (10 * a + b))"
proof -
  note pa = digitChar_props[OF a] and pb = digitChar_props[OF b]
  have t: "trim [digitChar a, digitChar b] = [digitChar a, digitChar b]"
    using pa(4) pb(4) by (simp add: trim_def)
  have x: "digitChar b \<noteq> CHR ''x''" "digitChar b \<noteq> CHR ''X''" "digitChar b \<noteq> CHR ''o''"
    "digitChar b \<noteq> CHR ''O''" "digitChar b \<noteq> CHR ''b''" "digitChar b \<noteq> CHR ''B''"
    "digitChar a \<noteq> CHR ''-''" "digitChar a \<noteq> CHR ''+''"
    using pa(5) pb(5) by auto
  have s: "safeInteger (10 * a + b) = Some (Num (10 * a + b))"
    using a b by (simp add: safeInteger_def)
  show ?thesis
    using pa(1,2,3) pb(1,2,3) x s by (simp add: Number_def t decimalLiteral_def)
qed

lemma Number_padStart2: "0 \<le> n \<Longrightarrow> n < 100 \<Longrightarrow> Number (padStart2 n) = Some (Num n)"
proof -
  assume a: "0 \<le> n" "n < 100"
  then have "0 \<le> n div 10" "n div 10 \<le> 9" "0 \<le> n mod 10" "n mod 10 \<le> 9" by auto
  from Number_two_digits[OF this] show ?thesis
    by (simp add: padStart2_def)
qed

text \<open>
  Every time of day written as two digits, a colon and two digits is read as its number
  of minutes.
\<close>

lemma toMinutes_HHmm:
  assumes "0 \<le> h" "h < 100" "0 \<le> m" "m < 100"
  shows "toMinutes (padStart2 h @ '':'' @ padStart2 m) = Some (Num (h * 60 + m))"
proof -
  have r: "0 \<le> h div 10" "h div 10 \<le> 9" "0 \<le> h mod 10" "h mod 10 \<le> 9"
       "0 \<le> m div 10" "m div 10 \<le> 9" "0 \<le> m mod 10" "m mod 10 \<le> 9"
    using assms by auto
  have c: "digitChar (h div 10) \<noteq> CHR '':''" "digitChar (h mod 10) \<noteq> CHR '':''"
    "digitChar (m div 10) \<noteq> CHR '':''" "digitChar (m mod 10) \<noteq> CHR '':''"
    using digitChar_props(5)[OF r(1,2)] digitChar_props(5)[OF r(3,4)]
      digitChar_props(5)[OF r(5,6)] digitChar_props(5)[OF r(7,8)] by auto
  have s: "split CHR '':'' (padStart2 h @ '':'' @ padStart2 m) = [padStart2 h, padStart2 m]"
    using c by (simp add: padStart2_def)
  have b: "safeInteger (h * 60) = Some (Num (h * 60))"
    "safeInteger (h * 60 + m) = Some (Num (h * 60 + m))"
    using assms by (simp_all add: safeInteger_def)
  show ?thesis
    unfolding toMinutes_def s using assms b
    by (simp add: Number_padStart2 hoursTimes60Plus_def)
qed

lemma isInQuietHours_numbers:
  assumes "qh_enabled (quietHours p)"
      and "toMinutes (timeText (startTime (quietHours p))) = Some (Num s)"
      and "toMinutes (timeText (endTime (quietHours p))) = Some (Num e)"
  shows "isInQuietHours p now =
           (if s < e
            then s \<le> (now div 60000) mod 1440 \<and> (now div 60000) mod 1440 < e
            else (now div 60000) mod 1440 \<ge> s \<or> (now div 60000) mod 1440 < e)"
  using assms
  by (simp add: isInQuietHours_def Let_def minutesOf_def minutes_since_midnight)

text \<open>The readings of the strings of the examples.\<close>

lemma toMinutes_examples:
  "toMinutes ''22:00'' = Some (Num 1320)"
  "toMinutes ''08:00'' = Some (Num 480)"
  "toMinutes ''09:00'' = Some (Num 540)"
  "toMinutes ''17:00'' = Some (Num 1020)"
  "toMinutes ''09:15'' = Some (Num 555)"
  "toMinutes ''17:45'' = Some (Num 1065)"
  using toMinutes_HHmm[of 22 0] toMinutes_HHmm[of 8 0] toMinutes_HHmm[of 9 0]
    toMinutes_HHmm[of 17 0] toMinutes_HHmm[of 9 15] toMinutes_HHmm[of 17 45]
  by (simp_all add: padStart2_def digitChar_def decimalDigits_def)

section \<open>Preference predicates\<close>

text \<open>
  C1. \<open>isInQuietHours\<close> is false when quiet hours are disabled. When they are enabled,
  the start and end times \<^verbatim>\<open>HH:mm\<close> are read as \<open>HH * 60 + mm\<close> minutes, the instant
  \<open>now\<close> as its number of whole minutes since UTC midnight, and the result is true
  exactly when that number lies in the half-open window from start to end if start is
  less than end, and exactly when it is at or after the start or before the end otherwise
  (the window wraps midnight); the same holds for every pair of strings that are read as
  numbers of minutes. With 22:00 to 08:00 it is true at 23:00 and at 03:00 and false at
  12:00; with 09:00 to 17:00 it is true at 10:00 and false at 08:59 and at 17:00; with
  09:15 to 17:45 it is true at 17:30 and false at 09:14 and at 17:45.
\<close>

theorem isInQuietHours_window:
  "(\<not> qh_enabled (quietHours p) \<longrightarrow> \<not> isInQuietHours p now)
   \<and> (qh_enabled (quietHours p)
        \<and> timeText (startTime (quietHours p)) = padStart2 sh @ '':'' @ padStart2 sm
        \<and> timeText (endTime (quietHours p)) = padStart2 eh @ '':'' @ padStart2 em
        \<and> 0 \<le> sh \<and> sh < 100 \<and> 0 \<le> sm \<and> sm < 100
        \<and> 0 \<le> eh \<and> eh < 100 \<and> 0 \<le> em \<and> em < 100
      \<longrightarrow> isInQuietHours p now =
            (if sh * 60 + sm < eh * 60 + em
             then sh * 60 + sm \<le> (now div 60000) mod 1440
                  \<and> (now div 60000) mod 1440 < eh * 60 + em
             else (now div 60000) mod 1440 \<ge> sh * 60 + sm
                  \<or> (now div 60000) mod 1440 < eh * 60 + em))
   \<and> (qh_enabled (quietHours p)
        \<and> toMinutes (timeText (startTime (quietHours p))) = Some (Num s)
        \<and> toMinutes (timeText (endTime (quietHours p))) = Some (Num e)
      \<longrightarrow> isInQuietHours p now =
            (if s < e
             then s \<le> (now div 60000) mod 1440 \<and> (now div 60000) mod 1440 < e
             else (now div 60000) mod 1440 \<ge> s \<or> (now div 60000) mod 1440 < e))
   \<and> (qh_enabled (quietHours p) \<and> timeText (startTime (quietHours p)) = ''22:00''
        \<and> timeText (endTime (quietHours p)) = ''08:00''
      \<longrightarrow> ((now div 60000) mod 1440 = 23 * 60 \<longrightarrow> isInQuietHours p now)
          \<and> ((now div 60000) mod 1440 = 3 * 60 \<longrightarrow> isInQuietHours p now)
          \<and> ((now div 60000) mod 1440 = 12 * 60 \<longrightarrow> \<not> isInQuietHours p now))
   \<and> (qh_enabled (quietHours p) \<and> timeText (startTime (quietHours p)) = ''09:00''
        \<and> timeText (endTime (quietHours p)) = ''17:00''
      \<longrightarrow> ((now div 60000) mod 1440 = 10 * 60 \<longrightarrow> isInQuietHours p now)
          \<and> ((now div 60000) mod 1440 = 8 * 60 + 59 \<longrightarrow> \<not> isInQuietHours p now)
          \<and> ((now div 60000) mod 1440 = 17 * 60 \<longrightarrow> \<not> isInQuietHours p now))
   \<and> (qh_enabled (quietHours p) \<and> timeText (startTime (quietHours p)) = ''09:15''
        \<and> timeText (endTime (quietHours p)) = ''17:45''
      \<longrightarrow> ((now div 60000) mod 1440 = 17 * 60 + 30 \<longrightarrow> isInQuietHours p now)
          \<and> ((now div 60000) mod 1440 = 9 * 60 + 14 \<longrightarrow> \<not> isInQuietHours p now)
          \<and> ((now div 60000) mod 1440 = 17 * 60 + 45 \<longrightarrow> \<not> isInQuietHours p now))"
proof (intro conjI impI)
  show "\<not> isInQuietHours p now" if "\<not> qh_enabled (quietHours p)"
    using that by (simp add: isInQuietHours_def)
next
  assume a: "qh_enabled (quietHours p)
        \<and> timeText (startTime (quietHours p)) = padStart2 sh @ '':'' @ padStart2 sm
        \<and> timeText (endTime (quietHours p)) = padStart2 eh @ '':'' @ padStart2 em
        \<and> 0 \<le> sh \<and> sh < 100 \<and> 0 \<le> sm \<and> sm < 100
        \<and> 0 \<le> eh \<and> eh < 100 \<and> 0 \<le> em \<and> em < 100"
  with toMinutes_HHmm[of sh sm] toMinutes_HHmm[of eh em]
  have "toMinutes (timeText (startTime (quietHours p))) = Some (Num (sh * 60 + sm))"
    "toMinutes (timeText (endTime (quietHours p))) = Some (Num (eh * 60 + em))"
    by simp_all
  with a show "isInQuietHours p now =
            (if sh * 60 + sm < eh * 60 + em
             then sh * 60 + sm \<le> (now div 60000) mod 1440
                  \<and> (now div 60000) mod 1440 < eh * 60 + em
             else (now div 60000) mod 1440 \<ge> sh * 60 + sm
                  \<or> (now div 60000) mod 1440 < eh * 60 + em)"
    by (simp add: isInQuietHours_numbers)
next
  assume "qh_enabled (quietHours p)
        \<and> toMinutes (timeText (startTime (quietHours p))) = Some (Num s)
        \<and> toMinutes (timeText (endTime (quietHours p))) = Some (Num e)"
  then show "isInQuietHours p now =
            (if s < e
             then s \<le> (now div 60000) mod 1440 \<and> (now div 60000) mod 1440 < e
             else (now div 60000) mod 1440 \<ge> s \<or> (now div 60000) mod 1440 < e)"
    by (simp add: isInQuietHours_numbers)
qed (simp_all add: isInQuietHours_numbers toMinutes_examples)

lemma timeText_examples:
  "timeText (TimeString ''22:00'') = ''22:00''"
  "timeText (TimeString ''08:00'') = ''08:00''"
  "timeText (TimeString ''09:15'') = ''09:15''"
  "timeText (TimeString ''17:45'') = ''17:45''"
  by (simp_all add: timeText_TimeString toMinutes_examples)

lemma padStart2_examples:
  "padStart2 22 = ''22''" "padStart2 0 = ''00''" "padStart2 8 = ''08''"
  "padStart2 9 = ''09''" "padStart2 15 = ''15''" "padStart2 17 = ''17''"
  "padStart2 45 = ''45''"
  by (simp_all add: padStart2_def digitChar_def decimalDigits_def)

text \<open>
  At 23:00 UTC the user with quiet hours from 22:00 to 08:00 is in quiet hours, and a
  user with the defaults (quiet hours off) is not; the user with quiet hours from 09:15
  to 17:45 is in quiet hours at 17:30 UTC and not at 17:45 UTC.
\<close>

theorem isInQuietHours_window_witness:
  "isInQuietHours quietPreferences 82800000
   \<and> \<not> isInQuietHours (defaultPreferences 1 ''u'') 82800000
   \<and> isInQuietHours officePreferences 63000000
   \<and> \<not> isInQuietHours officePreferences 63900000"
proof -
  have q: "qh_enabled (quietHours quietPreferences)"
    "timeText (startTime (quietHours quietPreferences)) = ''22:00''"
    "timeText (endTime (quietHours quietPreferences)) = ''08:00''"
    by (simp_all add: quietPreferences_def timeText_examples)
  have o: "qh_enabled (quietHours officePreferences)"
    "timeText (startTime (quietHours officePreferences)) = ''09:15''"
    "timeText (endTime (quietHours officePreferences)) = ''17:45''"
    by (simp_all add: officePreferences_def timeText_examples)
  have d: "\<not> qh_enabled (quietHours (defaultPreferences 1 ''u''))"
    by (simp add: defaultPreferences_def)
  from isInQuietHours_window[of quietPreferences 82800000 22 0 8 0 1320 480] q
  have 1: "isInQuietHours quietPreferences 82800000"
    by (simp add: padStart2_examples)
  from isInQuietHours_window[of "defaultPreferences 1 ''u''" 82800000] d
  have 2: "\<not> isInQuietHours (defaultPreferences 1 ''u'') 82800000"
    by blast
  from isInQuietHours_window[of officePreferences 63000000 9 15 17 45 555 1065] o
  have 3: "isInQuietHours officePreferences 63000000"
    by (simp add: padStart2_examples)
  from isInQuietHours_window[of officePreferences 63900000 9 15 17 45 555 1065] o
  have 4: "\<not> isInQuietHours officePreferences 63900000"
    by (simp add: padStart2_examples)
  from 1 2 3 4 show ?thesis by simp
qed

text \<open>
  C2. \<open>shouldSend\<close> is false whenever the channel's master switch is not on (the channel
  is missing, or its \<^verbatim>\<open>enabled\<close> is not true), whatever the category overrides are.
  When the master switch is on, the result is the category's override for the channel if
  there is one, and true if there is none. So a true result always comes with the master
  switch on: an override narrows delivery and never enables a channel that is off.
\<close>

theorem shouldSend_two_level:
  "(channels p channel = None \<or> (\<exists>c. channels p channel = Some c \<and> enabled c \<noteq> Some True)
      \<longrightarrow> \<not> shouldSend (p\<lparr>categories := cs\<rparr>) channel cat)
   \<and> (channels p channel = Some c \<and> enabled c = Some True
        \<and> categories p cat = Some m \<and> m channel = Some b
      \<longrightarrow> shouldSend p channel cat = b)
   \<and> (channels p channel = Some c \<and> enabled c = Some True
        \<and> (categories p cat = None \<or> (\<exists>m. categories p cat = Some m \<and> m channel = None))
      \<longrightarrow> shouldSend p channel cat)
   \<and> (shouldSend p channel cat
      \<longrightarrow> (\<exists>c. channels p channel = Some c \<and> enabled c = Some True))"
  by (auto simp: shouldSend_def masterEnabled_def categoryOverride_def split: option.splits)

lemma shouldSend_push_social: "shouldSend (defaultPreferences 1 ''u'') ''push'' ''social''"
  by (simp add: shouldSend_def masterEnabled_def categoryOverride_def defaultPreferences_def
      defaultChannels_def defaultCategories_def categoryDefaults_def)

text \<open>
  With the defaults: sms is off at the master switch; e-mail is on but the content
  category overrides it to false; a category without overrides leaves e-mail on; and push
  for social, which is sent, has its master switch on.
\<close>

theorem shouldSend_two_level_witness:
  "\<not> shouldSend (defaultPreferences 1 ''u'') ''sms'' ''social''
   \<and> \<not> shouldSend (defaultPreferences 1 ''u'') ''email'' ''content''
   \<and> shouldSend (defaultPreferences 1 ''u'') ''email'' ''unknown''
   \<and> (\<exists>c. channels (defaultPreferences 1 ''u'') ''push'' = Some c \<and> enabled c = Some True)"
proof -
  let ?p = "defaultPreferences 1 ''u''"
  have "\<not> shouldSend (?p\<lparr>categories := defaultCategories\<rparr>) ''sms'' ''social''"
    using shouldSend_two_level[where p = ?p and channel = "''sms''" and cs = defaultCategories
        and cat = "''social''"]
    by (simp add: defaultPreferences_def defaultChannels_def)
  moreover have "?p\<lparr>categories := defaultCategories\<rparr> = ?p"
    by (simp add: defaultPreferences_def)
  moreover have "shouldSend ?p ''email'' ''content'' = False"
    using shouldSend_two_level[where p = ?p and channel = "''email''" and cat = "''content''"
        and c = "\<lparr>enabled = Some True, address = None, phoneNumber = None\<rparr>"
        and m = "categoryDefaults False True True" and b = False]
    by (simp add: defaultPreferences_def defaultChannels_def defaultCategories_def
        categoryDefaults_def)
  moreover have "shouldSend ?p ''email'' ''unknown''"
    using shouldSend_two_level[where p = ?p and channel = "''email''" and cat = "''unknown''"
        and c = "\<lparr>enabled = Some True, address = None, phoneNumber = None\<rparr>"]
    by (simp add: defaultPreferences_def defaultChannels_def defaultCategories_def)
  moreover have "\<exists>c. channels ?p ''push'' = Some c \<and> enabled c = Some True"
    using shouldSend_two_level[where p = ?p and channel = "''push''" and cat = "''social''"]
      shouldSend_push_social by blast
  ultimately show ?thesis by simp
qed

section \<open>Dispatcher\<close>

lemma saveNotification_mem: "n \<in> set (saveNotification n coll)"
  by (auto simp: saveNotification_def image_iff)

lemma email_markChannelDelivered:
  "delivered (email (nchannels (markChannelDelivered ''email'' t n)))"
  by (simp add: markChannelDelivered_def updateOverallStatus_def Let_def)

lemma email_markChannelDelivered_inApp:
  "email (nchannels (markChannelDelivered ''inApp'' t n)) = email (nchannels n)"
  by (simp add: markChannelDelivered_def updateOverallStatus_def Let_def)

lemma includeInDigest_markChannelDelivered:
  "includeInDigest (email (nchannels (markChannelDelivered c t n)))
     = includeInDigest (email (nchannels n))"
  by (simp add: markChannelDelivered_def updateOverallStatus_def Let_def)

lemma priority_markChannelDelivered:
  "priority (markChannelDelivered c t n) = priority n"
  by (simp add: markChannelDelivered_def updateOverallStatus_def Let_def)

lemma email_newNotification:
  "email (nchannels (newNotification i t r pl)) =
     \<lparr>delivered = False, deliveredAt = None, error = None, includeInDigest = True\<rparr>"
  by (simp add: newNotification_def)

lemma loadOrCreate_example:
  "loadOrCreate (freshPrefId exampleEnv) (preferencesColl exampleDb) ''u''
     = (quietPreferences, [quietPreferences])"
  by (simp add: loadOrCreate_def findOneByUser_def exampleDb_def quietPreferences_def
      defaultPreferences_def)

lemma quiet_example: "isInQuietHours quietPreferences 82800000"
  using isInQuietHours_numbers[of quietPreferences 1320 480 82800000]
  by (simp add: quietPreferences_def timeText_examples toMinutes_examples)

lemma category_example:
  "category (newNotification i t r (examplePayload prio)) = ''messaging''"
  by (simp add: newNotification_def examplePayload_def orDefault_def inferCategory_def)

lemma priority_example:
  "priority (newNotification i t r (examplePayload (Some ''urgent''))) = ''urgent''"
  by (simp add: newNotification_def examplePayload_def orDefault_def)

lemma shouldSend_example:
  "shouldSend quietPreferences ''push'' ''messaging''"
  "shouldSend quietPreferences ''email'' ''messaging''"
  "shouldSend quietPreferences ''inApp'' ''messaging''"
  by (simp_all add: shouldSend_def masterEnabled_def categoryOverride_def quietPreferences_def
      defaultPreferences_def defaultChannels_def defaultCategories_def categoryDefaults_def)

text \<open>The parts of the outcome of a dispatch, each in terms of the steps of \<open>send\<close>.\<close>

lemma send_decided:
  "decided (send env db r pl) =
     (let p = fst (loadOrCreate (freshPrefId env) (preferencesColl db) r);
          n0 = newNotification (freshNotificationId env) (tSave env) r pl
      in quietHoursGate p n0 (tQuietHours env) (decideChannels p n0))"
  by (simp add: send_def Let_def split: prod.splits)

lemma send_written:
  "written (send env db r pl) =
     (let p = fst (loadOrCreate (freshPrefId env) (preferencesColl db) r);
          n0 = newNotification (freshNotificationId env) (tSave env) r pl;
          c = quietHoursGate p n0 (tQuietHours env) (decideChannels p n0)
      in emailStep p (tEmail env) c
           (if d_inApp c \<and> isUserOnline env r
            then markChannelDelivered ''inApp'' (tInApp env) n0 else n0))"
  by (simp add: send_def Let_def split: prod.splits)

lemma send_result:
  "result (send env db r pl) =
     (let p = fst (loadOrCreate (freshPrefId env) (preferencesColl db) r);
          n0 = newNotification (freshNotificationId env) (tSave env) r pl;
          c = quietHoursGate p n0 (tQuietHours env) (decideChannels p n0)
      in if d_inApp c \<and> isUserOnline env r
            \<or> d_email c \<and> (frequency (digest p) = ''never'' \<or> priority n0 = ''urgent'')
         then Inl ParallelSaveError
         else Inr (written (send env db r pl)))"
  by (simp add: send_def Let_def immediateEmail_def priority_markChannelDelivered
      split: prod.splits)

lemma send_after:
  "notificationsColl (after (send env db r pl))
     = saveNotification (written (send env db r pl)) (notificationsColl db)"
  by (simp add: send_def Let_def split: prod.splits)

lemma send_effects_push:
  "list_ex isPushFanOut (effects (send env db r pl)) = d_push (decided (send env db r pl))"
  by (simp add: send_def Let_def split: prod.splits)

lemma d_quietHoursGate:
  "d_email (quietHoursGate p n t c) = d_email c"
  "d_inApp (quietHoursGate p n t c) = d_inApp c"
  "d_push (quietHoursGate p n t c)
     = (d_push c \<and> \<not> (isInQuietHours p t \<and> priority n \<noteq> ''urgent''))"
  by (auto simp: quietHoursGate_def)

lemma emailStep_email:
  "email (nchannels (emailStep p t c n)) =
     (if d_email c
      then if frequency (digest p) = ''never'' \<or> priority n = ''urgent''
           then (email (nchannels n))\<lparr>delivered := True, deliveredAt := Some t,
                                       includeInDigest := False\<rparr>
           else (email (nchannels n))\<lparr>includeInDigest := True\<rparr>
      else (email (nchannels n))\<lparr>includeInDigest := False\<rparr>)"
  by (simp add: emailStep_def setIncludeInDigest_def markChannelDelivered_def
      updateOverallStatus_def Let_def)

lemma send_email_state:
  "email (nchannels (written (send env db r pl))) =
     (let p = fst (loadOrCreate (freshPrefId env) (preferencesColl db) r);
          n0 = newNotification (freshNotificationId env) (tSave env) r pl
      in if shouldSend p ''email'' (category n0)
         then if frequency (digest p) = ''never'' \<or> priority n0 = ''urgent''
              then \<lparr>delivered = True, deliveredAt = Some (tEmail env), error = None,
                    includeInDigest = False\<rparr>
              else \<lparr>delivered = False, deliveredAt = None, error = None,
                    includeInDigest = True\<rparr>
         else \<lparr>delivered = False, deliveredAt = None, error = None,
               includeInDigest = False\<rparr>)"
  unfolding send_written Let_def emailStep_email d_quietHoursGate
  by (simp add: decideChannels_def email_markChannelDelivered_inApp
      priority_markChannelDelivered email_newNotification)

lemma markChannelDelivered_identity:
  "nid (markChannelDelivered c t n) = nid n"
  "recipient (markChannelDelivered c t n) = recipient n"
  "createdAt (markChannelDelivered c t n) = createdAt n"
  by (simp_all add: markChannelDelivered_def updateOverallStatus_def Let_def)

lemma emailStep_identity:
  "nid (emailStep p t c n) = nid n"
  "recipient (emailStep p t c n) = recipient n"
  "createdAt (emailStep p t c n) = createdAt n"
  by (simp_all add: emailStep_def setIncludeInDigest_def markChannelDelivered_identity)

lemma send_identity:
  "nid (written (send env db r pl)) = freshNotificationId env"
  "recipient (written (send env db r pl)) = r"
  "createdAt (written (send env db r pl)) = tSave env"
  unfolding send_written Let_def emailStep_identity
  by (simp_all add: markChannelDelivered_identity newNotification_def)

lemma saveNotification_unique:
  "m \<in> set (saveNotification n coll) \<Longrightarrow> nid m = nid n \<Longrightarrow> m = n"
  by (auto simp: saveNotification_def image_iff split: if_splits)

text \<open>
  C3. In a dispatch, with \<open>p\<close> the recipient's preferences and \<open>n0\<close> the new record, the
  final push decision is true exactly when the preference-computed push decision is true
  and it is not the case that quiet hours hold at dispatch time with a priority other
  than urgent; so push is forced from true to false exactly under those three
  conditions. The in-app and e-mail decisions are the preference-computed ones. The push
  fan-out is started exactly when the final push decision is true; in particular an
  urgent dispatch during quiet hours whose preference-computed push decision is true
  starts it.
\<close>

theorem send_quiet_hours_gate:
  "let p = fst (loadOrCreate (freshPrefId env) (preferencesColl db) recipientId);
       n0 = newNotification (freshNotificationId env) (tSave env) recipientId payload;
       out = send env db recipientId payload
   in d_push (decided out) =
        (shouldSend p ''push'' (category n0)
         \<and> \<not> (isInQuietHours p (tQuietHours env) \<and> priority n0 \<noteq> ''urgent''))
      \<and> (shouldSend p ''push'' (category n0) \<and> \<not> d_push (decided out))
          = (shouldSend p ''push'' (category n0) \<and> isInQuietHours p (tQuietHours env)
             \<and> priority n0 \<noteq> ''urgent'')
      \<and> d_inApp (decided out) = shouldSend p ''inApp'' (category n0)
      \<and> d_email (decided out) = shouldSend p ''email'' (category n0)
      \<and> list_ex isPushFanOut (effects out) = d_push (decided out)
      \<and> (priority n0 = ''urgent'' \<and> isInQuietHours p (tQuietHours env)
           \<and> shouldSend p ''push'' (category n0)
         \<longrightarrow> list_ex isPushFanOut (effects out))"
  unfolding Let_def send_effects_push send_decided d_quietHoursGate
  by (auto simp: decideChannels_def)

text \<open>An urgent message at 23:00 UTC, in the quiet hours of the recipient, starts the push fan-out.\<close>

theorem send_quiet_hours_gate_witness:
  "list_ex isPushFanOut
     (effects (send exampleEnv exampleDb ''u'' (examplePayload (Some ''urgent''))))"
proof -
  have q: "isInQuietHours quietPreferences (tQuietHours exampleEnv)"
    using quiet_example by (simp add: exampleEnv_def)
  show ?thesis
    using send_quiet_hours_gate
      [of exampleEnv exampleDb "''u''" "examplePayload (Some ''urgent'')"] q
    by (simp add: Let_def loadOrCreate_example category_example priority_example
        shouldSend_example)
qed

lemma send_email_cases:
  fixes env db recipientId payload
  defines "p \<equiv> fst (loadOrCreate (freshPrefId env) (preferencesColl db) recipientId)"
      and "n0 \<equiv> newNotification (freshNotificationId env) (tSave env) recipientId payload"
      and "e \<equiv> email (nchannels (written (send env db recipientId payload)))"
  shows "shouldSend p ''email'' (category n0)
           \<and> (frequency (digest p) = ''never'' \<or> priority n0 = ''urgent'')
         \<longrightarrow> delivered e \<and> deliveredAt e = Some (tEmail env) \<and> \<not> includeInDigest e"
    and "shouldSend p ''email'' (category n0)
           \<and> \<not> (frequency (digest p) = ''never'' \<or> priority n0 = ''urgent'')
         \<longrightarrow> \<not> delivered e \<and> includeInDigest e"
    and "\<not> shouldSend p ''email'' (category n0) \<longrightarrow> \<not> delivered e \<and> \<not> includeInDigest e"
  unfolding e_def send_email_state Let_def p_def[symmetric] n0_def[symmetric]
  by simp_all

lemma send_result_cases:
  "result (send env db recipientId payload) =
     (if shouldSend (fst (loadOrCreate (freshPrefId env) (preferencesColl db) recipientId))
            ''inApp''
            (category (newNotification (freshNotificationId env) (tSave env) recipientId
               payload))
           \<and> isUserOnline env recipientId
         \<or> shouldSend (fst (loadOrCreate (freshPrefId env) (preferencesColl db) recipientId))
            ''email''
            (category (newNotification (freshNotificationId env) (tSave env) recipientId
               payload))
           \<and> (frequency (digest (fst (loadOrCreate (freshPrefId env) (preferencesColl db)
                  recipientId))) = ''never''
              \<or> priority (newNotification (freshNotificationId env) (tSave env) recipientId
                   payload) = ''urgent'')
      then Inl ParallelSaveError
      else Inr (written (send env db recipientId payload)))"
  unfolding send_result Let_def d_quietHoursGate
  by (simp add: decideChannels_def)

text \<open>
  C4. In a dispatch, the document that a save writes is in the collection afterwards, and
  it is the only stored record with its \<^verbatim>\<open>_id\<close>. If the e-mail decision is true and
  the digest frequency is never or the priority is urgent, the e-mail channel of that
  record has \<open>delivered\<close> true, \<open>deliveredAt\<close> the clock reading of the e-mail step and
  \<open>includeInDigest\<close> false; if the e-mail decision is true and neither holds,
  \<open>delivered\<close> is false and \<open>includeInDigest\<close> is true; if the e-mail decision is false,
  \<open>delivered\<close> and \<open>includeInDigest\<close> are false. The call returns that record when
  neither the in-app delivery nor the immediate e-mail has marked a channel, and throws
  \<^verbatim>\<open>ParallelSaveError\<close> when one of them has.
\<close>

theorem send_email_flags:
  "let p = fst (loadOrCreate (freshPrefId env) (preferencesColl db) recipientId);
       n0 = newNotification (freshNotificationId env) (tSave env) recipientId payload;
       out = send env db recipientId payload;
       e = email (nchannels (written out))
   in written out \<in> set (notificationsColl (after out))
      \<and> nid (written out) = freshNotificationId env
      \<and> (\<forall>m\<in>set (notificationsColl (after out)).
            nid m = freshNotificationId env \<longrightarrow> m = written out)
      \<and> (shouldSend p ''email'' (category n0)
           \<and> (frequency (digest p) = ''never'' \<or> priority n0 = ''urgent'')
         \<longrightarrow> delivered e \<and> deliveredAt e = Some (tEmail env) \<and> \<not> includeInDigest e)
      \<and> (shouldSend p ''email'' (category n0)
           \<and> \<not> (frequency (digest p) = ''never'' \<or> priority n0 = ''urgent'')
         \<longrightarrow> \<not> delivered e \<and> includeInDigest e)
      \<and> (\<not> shouldSend p ''email'' (category n0) \<longrightarrow> \<not> delivered e \<and> \<not> includeInDigest e)
      \<and> result out =
          (if shouldSend p ''inApp'' (category n0) \<and> isUserOnline env recipientId
              \<or> shouldSend p ''email'' (category n0)
                 \<and> (frequency (digest p) = ''never'' \<or> priority n0 = ''urgent'')
           then Inl ParallelSaveError
           else Inr (written out))"
proof -
  let ?out = "send env db recipientId payload"
  have 1: "written ?out \<in> set (notificationsColl (after ?out))"
    by (simp add: send_after saveNotification_mem)
  have 2: "nid (written ?out) = freshNotificationId env"
    by (simp add: send_identity)
  have 3: "\<forall>m\<in>set (notificationsColl (after ?out)).
            nid m = freshNotificationId env \<longrightarrow> m = written ?out"
    using saveNotification_unique[of _ "written ?out" "notificationsColl db"]
    by (auto simp: send_after send_identity)
  note c = send_email_cases[of env db recipientId payload]
  show ?thesis
    unfolding Let_def
    by (intro conjI 1 2 3 c send_result_cases)
qed

lemma priority_example_normal:
  "priority (newNotification i t r (examplePayload None)) = ''normal''"
  by (simp add: newNotification_def examplePayload_def orDefault_def)

lemma frequency_example: "frequency (digest quietPreferences) = ''daily''"
  by (simp add: quietPreferences_def defaultPreferences_def)

lemma loadOrCreate_emailOff:
  "loadOrCreate (freshPrefId exampleEnv) (preferencesColl emailOffDb) ''u''
     = (emailOffPreferences, [emailOffPreferences])"
  by (simp add: loadOrCreate_def findOneByUser_def emailOffDb_def emailOffPreferences_def
      quietPreferences_def defaultPreferences_def)

lemma shouldSend_emailOff: "\<not> shouldSend emailOffPreferences ''email'' ''messaging''"
  by (simp add: shouldSend_def masterEnabled_def emailOffPreferences_def)

lemma offlineEnv_fields:
  "freshPrefId offlineEnv = freshPrefId exampleEnv"
  "freshNotificationId offlineEnv = freshNotificationId exampleEnv"
  "tSave offlineEnv = tSave exampleEnv"
  "tEmail exampleEnv = 82800002"
  "\<not> isUserOnline offlineEnv r"
  "isUserOnline exampleEnv r"
  by (simp_all add: offlineEnv_def exampleEnv_def)

text \<open>
  For the recipient with daily digests who is online: an urgent message is stored as
  delivered by e-mail at the time of the e-mail step and kept out of the digest, and the
  call throws; a message of normal priority is stored for the digest, and the call
  throws as well, since the in-app delivery has marked its channel. For the same
  recipient offline the message of normal priority is stored for the digest and
  returned. With the e-mail channel switched off the message is kept out of the digest.
\<close>

theorem send_email_flags_witness:
  "delivered (email (nchannels (written
      (send exampleEnv exampleDb ''u'' (examplePayload (Some ''urgent''))))))
   \<and> deliveredAt (email (nchannels (written
      (send exampleEnv exampleDb ''u'' (examplePayload (Some ''urgent'')))))) = Some 82800002
   \<and> \<not> includeInDigest (email (nchannels (written
      (send exampleEnv exampleDb ''u'' (examplePayload (Some ''urgent''))))))
   \<and> result (send exampleEnv exampleDb ''u'' (examplePayload (Some ''urgent'')))
       = Inl ParallelSaveError
   \<and> \<not> delivered (email (nchannels (written
      (send exampleEnv exampleDb ''u'' (examplePayload None)))))
   \<and> includeInDigest (email (nchannels (written
      (send exampleEnv exampleDb ''u'' (examplePayload None)))))
   \<and> result (send exampleEnv exampleDb ''u'' (examplePayload None)) = Inl ParallelSaveError
   \<and> includeInDigest (email (nchannels (written
      (send offlineEnv exampleDb ''u'' (examplePayload None)))))
   \<and> result (send offlineEnv exampleDb ''u'' (examplePayload None))
       = Inr (written (send offlineEnv exampleDb ''u'' (examplePayload None)))
   \<and> written (send offlineEnv exampleDb ''u'' (examplePayload None))
       \<in> set (notificationsColl (after (send offlineEnv exampleDb ''u'' (examplePayload None))))
   \<and> \<not> includeInDigest (email (nchannels (written
      (send exampleEnv emailOffDb ''u'' (examplePayload None)))))"
  using send_email_flags[of exampleEnv exampleDb "''u''" "examplePayload (Some ''urgent'')"]
    send_email_flags[of exampleEnv exampleDb "''u''" "examplePayload None"]
    send_email_flags[of offlineEnv exampleDb "''u''" "examplePayload None"]
    send_email_flags[of exampleEnv emailOffDb "''u''" "examplePayload None"]
  by (simp add: Let_def loadOrCreate_example loadOrCreate_emailOff category_example
      priority_example priority_example_normal shouldSend_example shouldSend_emailOff
      frequency_example offlineEnv_fields)

section \<open>Push delivery\<close>

text \<open>
  C10. If one of the two VAPID keys is missing or empty when the push service is
  initialised, \<open>sendToUser\<close> returns success false with the error \<^verbatim>\<open>Not configured\<close> and
  without \<open>deliveredTo\<close> and \<open>total\<close>, attempts no endpoint and leaves the stored
  preferences as they are.
\<close>

theorem sendToUser_not_configured:
  "\<not> (truthy publicVapidKey \<and> truthy privateVapidKey)
   \<longrightarrow> sendToUser (initialize publicVapidKey privateVapidKey) transport now coll userPreferences n
       = (\<lparr>success = False, resultError = Some ''Not configured'',
            deliveredTo = None, total = None\<rparr>, [], coll)"
  by (simp add: sendToUser_def initialize_def)

text \<open>Without a public key, the user with three endpoints gets no attempt at all.\<close>

theorem sendToUser_not_configured_witness:
  "sendToUser (initialize None (Some ''private'')) goneAtE2 0 [threeEndpoints] threeEndpoints
     exampleNotification
   = (\<lparr>success = False, resultError = Some ''Not configured'', deliveredTo = None,
        total = None\<rparr>, [], [threeEndpoints])"
  using sendToUser_not_configured[of None "Some ''private''" goneAtE2 0 "[threeEndpoints]"
      threeEndpoints exampleNotification]
  by (simp add: truthy_def)

lemma sendToAll_eq:
  "sendToAll transport payload subs results invalid =
     (results @ map (resultOf transport payload) subs,
      invalid @ map endpoint (filter (permanentlyInvalid transport payload) subs))"
  by (induction subs arbitrary: results invalid)
     (auto simp: resultOf_def permanentlyInvalid_def split: push_outcome.splits)

lemma r_endpoint_resultOf: "r_endpoint (resultOf transport payload s) = endpoint s"
  by (simp add: resultOf_def split: push_outcome.splits)

lemma r_success_resultOf: "r_success (resultOf transport payload s) = accepted transport payload s"
  by (simp add: resultOf_def accepted_def split: push_outcome.splits)

lemma updateOne_id: "(\<And>x. f x = x) \<Longrightarrow> updateOne q f xs = xs"
  by (induction xs) auto

lemma filter_accepted_pos:
  "(filter (accepted transport payload) subs \<noteq> [])
     = (\<exists>s\<in>set subs. accepted transport payload s)"
  by (induction subs) auto

text \<open>
  C6, as the code has it. When the push service is configured, \<open>sendToUser\<close> attempts
  every registered endpoint, in order and whatever the other attempts do; success is true
  exactly when at least one endpoint accepted, \<open>deliveredTo\<close> is the number of endpoints
  that accepted, \<open>total\<close> is the number of registered subscriptions, and the stored
  document loses exactly the subscriptions whose endpoint was rejected with status 404
  or 410 in this pass and keeps every other one.
\<close>

theorem sendToUser_fan_out:
  "configured svc \<longrightarrow>
     (let payload = buildPayload n now;
          subs = pushSubscriptions userPreferences;
          out = sendToUser svc transport now coll userPreferences n
      in map r_endpoint (fst (snd out)) = map endpoint subs
         \<and> map r_success (fst (snd out)) = map (accepted transport payload) subs
         \<and> success (fst out) = (\<exists>s\<in>set subs. accepted transport payload s)
         \<and> deliveredTo (fst out) = Some (length (filter (accepted transport payload) subs))
         \<and> total (fst out) = Some (length subs)
         \<and> snd (snd out) =
             updateOne (\<lambda>p. prefId p = prefId userPreferences)
               (\<lambda>p. p\<lparr>pushSubscriptions :=
                   filter (\<lambda>s. endpoint s \<notin>
                             endpoint ` {s \<in> set subs. permanentlyInvalid transport payload s})
                     (pushSubscriptions p)\<rparr>)
               coll)"
proof
  assume c: "configured svc"
  define payload where "payload = buildPayload n now"
  define subs where "subs = pushSubscriptions userPreferences"
  define inv where "inv = map endpoint (filter (permanentlyInvalid transport payload) subs)"
  have setinv: "set inv = endpoint ` {s \<in> set subs. permanentlyInvalid transport payload s}"
    by (auto simp: inv_def)
  have out: "sendToUser svc transport now coll userPreferences n =
      (\<lparr>success = length (filter (accepted transport payload) subs) > 0, resultError = None,
        deliveredTo = Some (length (filter (accepted transport payload) subs)),
        total = Some (length subs)\<rparr>,
       map (resultOf transport payload) subs,
       (if length inv > 0
        then removeInvalidSubscriptions coll (prefId userPreferences) inv else coll))"
    using c
    by (simp add: sendToUser_def sendToAll_eq Let_def payload_def subs_def inv_def
        filter_map comp_def r_success_resultOf)
  have prune:
    "(if length inv > 0
      then removeInvalidSubscriptions coll (prefId userPreferences) inv else coll)
      = updateOne (\<lambda>p. prefId p = prefId userPreferences)
          (\<lambda>p. p\<lparr>pushSubscriptions :=
                   filter (\<lambda>s. endpoint s \<notin> set inv) (pushSubscriptions p)\<rparr>) coll"
  proof (cases "length inv > 0")
    case True
    then show ?thesis by (simp add: removeInvalidSubscriptions_def)
  next
    case False
    then have "inv = []" by simp
    then show ?thesis by (simp add: updateOne_id)
  qed
  show "let payload = buildPayload n now;
          subs = pushSubscriptions userPreferences;
          out = sendToUser svc transport now coll userPreferences n
      in map r_endpoint (fst (snd out)) = map endpoint subs
         \<and> map r_success (fst (snd out)) = map (accepted transport payload) subs
         \<and> success (fst out) = (\<exists>s\<in>set subs. accepted transport payload s)
         \<and> deliveredTo (fst out) = Some (length (filter (accepted transport payload) subs))
         \<and> total (fst out) = Some (length subs)
         \<and> snd (snd out) =
             updateOne (\<lambda>p. prefId p = prefId userPreferences)
               (\<lambda>p. p\<lparr>pushSubscriptions :=
                   filter (\<lambda>s. endpoint s \<notin>
                             endpoint ` {s \<in> set subs. permanentlyInvalid transport payload s})
                     (pushSubscriptions p)\<rparr>)
               coll"
    unfolding Let_def payload_def[symmetric] subs_def[symmetric] out prune setinv[symmetric]
    by (simp add: r_endpoint_resultOf r_success_resultOf comp_def filter_accepted_pos)
qed

text \<open>
  Three endpoints, the second answering 410: two deliveries out of three, and only the
  second endpoint is removed from the stored document.
\<close>

theorem sendToUser_fan_out_witness:
  "configured (initialize (Some ''public'') (Some ''private''))
   \<and> success (fst (sendToUser (initialize (Some ''public'') (Some ''private'')) goneAtE2 0
        [threeEndpoints] threeEndpoints exampleNotification))
   \<and> deliveredTo (fst (sendToUser (initialize (Some ''public'') (Some ''private'')) goneAtE2 0
        [threeEndpoints] threeEndpoints exampleNotification)) = Some 2
   \<and> total (fst (sendToUser (initialize (Some ''public'') (Some ''private'')) goneAtE2 0
        [threeEndpoints] threeEndpoints exampleNotification)) = Some 3
   \<and> snd (snd (sendToUser (initialize (Some ''public'') (Some ''private'')) goneAtE2 0
        [threeEndpoints] threeEndpoints exampleNotification))
      = [threeEndpoints\<lparr>pushSubscriptions := [subscriptionAt ''e1'', subscriptionAt ''e3'']\<rparr>]"
proof -
  have c: "configured (initialize (Some ''public'') (Some ''private''))"
    by (simp add: initialize_def truthy_def)
  have s: "pushSubscriptions threeEndpoints
             = [subscriptionAt ''e1'', subscriptionAt ''e2'', subscriptionAt ''e3'']"
    by (simp add: threeEndpoints_def)
  have a: "accepted goneAtE2 pl (subscriptionAt ''e1'')"
          "\<not> accepted goneAtE2 pl (subscriptionAt ''e2'')"
          "accepted goneAtE2 pl (subscriptionAt ''e3'')" for pl
    by (simp_all add: accepted_def goneAtE2_def subscriptionAt_def)
  have i: "\<not> permanentlyInvalid goneAtE2 pl (subscriptionAt ''e1'')"
          "permanentlyInvalid goneAtE2 pl (subscriptionAt ''e2'')"
          "\<not> permanentlyInvalid goneAtE2 pl (subscriptionAt ''e3'')" for pl
    by (simp_all add: permanentlyInvalid_def goneAtE2_def subscriptionAt_def)
  have e: "endpoint (subscriptionAt x) = x" for x
    by (simp add: subscriptionAt_def)
  have inv: "{s \<in> set [subscriptionAt ''e1'', subscriptionAt ''e2'', subscriptionAt ''e3''].
               permanentlyInvalid goneAtE2 pl s} = {subscriptionAt ''e2''}" for pl
    using i by auto
  note fan = sendToUser_fan_out[of "initialize (Some ''public'') (Some ''private'')"
        exampleNotification 0 threeEndpoints goneAtE2 "[threeEndpoints]",
        unfolded Let_def s inv]
  show ?thesis
    using fan c by (simp add: a e s)
qed

text \<open>
  The claim C6 as it is written, for every preferences document and notification, fails
  for a service without VAPID keys: the user with three endpoints gets no attempt, and
  the result has no \<open>total\<close>.
\<close>

theorem sendToUser_fan_out_counterexample:
  "fst (snd (sendToUser (initialize None None) goneAtE2 0 [threeEndpoints] threeEndpoints
       exampleNotification)) = []
   \<and> length (pushSubscriptions threeEndpoints) = 3
   \<and> total (fst (sendToUser (initialize None None) goneAtE2 0 [threeEndpoints] threeEndpoints
       exampleNotification)) = None
   \<and> deliveredTo (fst (sendToUser (initialize None None) goneAtE2 0 [threeEndpoints]
       threeEndpoints exampleNotification)) = None"
  by (simp add: sendToUser_def initialize_def truthy_def threeEndpoints_def)

section \<open>Notification records\<close>

lemma applyOp_clicked_read:
  "(clicked n \<longrightarrow> read n) \<Longrightarrow> clicked (applyOp op n) \<longrightarrow> read (applyOp op n)"
  by (cases op)
     (auto simp: markAsRead_def markAsClicked_def markChannelDelivered_def
        updateOverallStatus_def setIncludeInDigest_def setEmailDelivered_def Let_def)

lemma lifecycle_clicked_read:
  "(clicked n \<longrightarrow> read n) \<Longrightarrow> clicked (lifecycle n ops) \<longrightarrow> read (lifecycle n ops)"
  unfolding lifecycle_def
proof (induction ops arbitrary: n)
  case Nil
  then show ?case by simp
next
  case (Cons op ops)
  from Cons.prems have "clicked (applyOp op n) \<longrightarrow> read (applyOp op n)"
    by (rule applyOp_clicked_read)
  from Cons.IH[OF this] show ?case by simp
qed

text \<open>
  C7, as the code has it. \<open>markAsClicked\<close> on an unread notification sets \<open>read\<close> and
  \<open>clicked\<close>, with \<open>clickedAt\<close> and \<open>readAt\<close> the two clock readings of the call. A
  second call is a total operation that changes nothing but \<open>clickedAt\<close>, which becomes
  the clock reading of the second call; \<open>read\<close>, \<open>readAt\<close> and \<open>clicked\<close> stay. In every
  state that a record reaches from its creation, \<open>clicked\<close> implies \<open>read\<close>.
\<close>

theorem markAsClicked_repeated:
  "(\<not> read n \<longrightarrow>
      read (markAsClicked t1 t2 n) \<and> clicked (markAsClicked t1 t2 n)
      \<and> clickedAt (markAsClicked t1 t2 n) = Some t1
      \<and> readAt (markAsClicked t1 t2 n) = Some t2)
   \<and> markAsClicked t3 t4 (markAsClicked t1 t2 n) = (markAsClicked t1 t2 n)\<lparr>clickedAt := Some t3\<rparr>
   \<and> (clicked (lifecycle (newNotification i t r pl) ops)
        \<longrightarrow> read (lifecycle (newNotification i t r pl) ops))"
proof (intro conjI)
  show "clicked (lifecycle (newNotification i t r pl) ops)
        \<longrightarrow> read (lifecycle (newNotification i t r pl) ops)"
    by (rule lifecycle_clicked_read) (simp add: newNotification_def)
qed (auto simp: markAsClicked_def Let_def)

text \<open>
  A first click on the new, unread record at 1000, and a record that is delivered and
  then clicked: both end up read.
\<close>

theorem markAsClicked_repeated_witness:
  "\<not> read exampleNotification
   \<and> read (markAsClicked 1000 1001 exampleNotification)
   \<and> clickedAt (markAsClicked 1000 1001 exampleNotification) = Some 1000
   \<and> readAt (markAsClicked 1000 1001 exampleNotification) = Some 1001
   \<and> clicked (lifecycle exampleNotification
        [MarkChannelDelivered ''inApp'' 900, MarkAsClicked 1000 1001])
   \<and> read (lifecycle exampleNotification
        [MarkChannelDelivered ''inApp'' 900, MarkAsClicked 1000 1001])"
proof -
  have u: "\<not> read exampleNotification"
    by (simp add: exampleNotification_def newNotification_def)
  have c: "clicked (lifecycle exampleNotification
        [MarkChannelDelivered ''inApp'' 900, MarkAsClicked 1000 1001])"
    by (simp add: lifecycle_def markAsClicked_def Let_def)
  show ?thesis
    using u c
      markAsClicked_repeated[of exampleNotification 1000 1001 0 0 10 5000 "''u''"
        "examplePayload None" "[MarkChannelDelivered ''inApp'' 900, MarkAsClicked 1000 1001]"]
    by (simp add: exampleNotification_def)
qed

text \<open>
  The claim C7 as it is written fails in its second part: a second click at 2000 moves
  \<open>clickedAt\<close> from 1000 to 2000.
\<close>

theorem markAsClicked_repeated_counterexample:
  "clickedAt (markAsClicked 1000 1001 exampleNotification) = Some 1000
   \<and> clickedAt (markAsClicked 2000 2001 (markAsClicked 1000 1001 exampleNotification))
       = Some 2000
   \<and> clickedAt (markAsClicked 2000 2001 (markAsClicked 1000 1001 exampleNotification))
       \<noteq> clickedAt (markAsClicked 1000 1001 exampleNotification)"
  by (simp add: markAsClicked_def Let_def)

lemma set_limitDocs: "set (limitDocs k xs) \<subseteq> set xs"
  by (auto simp: limitDocs_def dest: in_set_takeD)

text \<open>The two listing queries return no expired record.\<close>

lemma getAll_not_expired: "n \<in> set (getAll coll userId opts now) \<Longrightarrow> notExpired now n"
proof -
  assume "n \<in> set (getAll coll userId opts now)"
  then have "n \<in> set (sortNewestFirst
                 (filter (\<lambda>n. recipient n = userId \<and> notExpired now n
                             \<and> categoryMatches (lo_category opts) n) coll))"
    unfolding getAll_def Let_def using set_limitDocs set_drop_subset by fast
  then show ?thesis by (simp add: sortNewestFirst_def)
qed

lemma getUnread_not_expired: "n \<in> set (getUnread coll userId opts now) \<Longrightarrow> notExpired now n"
proof -
  assume "n \<in> set (getUnread coll userId opts now)"
  then have "n \<in> set (sortNewestFirst
              (filter (\<lambda>n. recipient n = userId \<and> \<not> read n \<and> notExpired now n
                          \<and> typeMatches (uo_types opts) n
                          \<and> categoryMatches (uo_category opts) n) coll))"
    unfolding getUnread_def Let_def using set_limitDocs by fast
  then show ?thesis by (simp add: sortNewestFirst_def)
qed

text \<open>
  C8 at a concrete input. The query of \<open>getUnreadCount\<close> has no condition on
  \<open>expiresAt\<close>: at time 7000 the unread notification that expired at 6000 is listed
  neither by \<open>getUnread\<close> nor by \<open>getAll\<close>, and \<open>getUnreadCount\<close> counts it.
\<close>

theorem getUnreadCount_counts_expired:
  "expiresAt expiredNotification = Some 6000
   \<and> getUnread [expiredNotification] ''u'' noUnreadOptions 7000 = []
   \<and> getAll [expiredNotification] ''u'' noListOptions 7000 = []
   \<and> getUnreadCount [expiredNotification] ''u'' None = 1"
  by (simp add: expiredNotification_def newNotification_def getUnread_def getAll_def
      getUnreadCount_def noUnreadOptions_def noListOptions_def notExpired_def
      categoryMatches_def typeMatches_def sortNewestFirst_def limitDocs_def)

section \<open>Preferences update\<close>

text \<open>
  What the update leaves alone: the sections that the request does not name, the keys of
  a map section that the request does not name, and the leaves of the digest and
  quiet-hours sections that the request does not name.
\<close>

lemma applyUpdates_frame:
  "pushSubscriptions (applyUpdates p u) = pushSubscriptions p
   \<and> user (applyUpdates p u) = user p
   \<and> prefId (applyUpdates p u) = prefId p
   \<and> (u_channels u = None \<longrightarrow> channels (applyUpdates p u) = channels p)
   \<and> (u_categories u = None \<longrightarrow> categories (applyUpdates p u) = categories p)
   \<and> (u_digest u = None \<longrightarrow> digest (applyUpdates p u) = digest p)
   \<and> (u_quietHours u = None \<longrightarrow> quietHours (applyUpdates p u) = quietHours p)
   \<and> (\<forall>c k. u_channels u = Some c \<and> k \<notin> dom c
        \<longrightarrow> channels (applyUpdates p u) k = channels p k)
   \<and> (\<forall>c k. u_categories u = Some c \<and> k \<notin> dom c
        \<longrightarrow> categories (applyUpdates p u) k = categories p k)
   \<and> (\<forall>d. u_digest u = Some d \<and> u_time d = None
        \<longrightarrow> time (digest (applyUpdates p u)) = time (digest p))
   \<and> (\<forall>q. u_quietHours u = Some q \<and> u_startTime q = None
        \<longrightarrow> startTime (quietHours (applyUpdates p u)) = startTime (quietHours p))"
  by (auto simp: applyUpdates_def Let_def assignDigest_def assignQuietHours_def map_add_def
      split: option.splits)

text \<open>
  C9 at a concrete input. The stored e-mail channel is on and has an address; the
  request switches the channel off and names nothing else. The saved document has the
  channel off and no address: the object of the request has replaced the stored one.
\<close>

theorem updatePreferences_drops_address:
  "channels addressedPreferences ''email''
     = Some \<lparr>enabled = Some True, address = Some ''me@example.org'', phoneNumber = None\<rparr>
   \<and> channels (snd (updatePreferences 2 [addressedPreferences] ''u'' toggleEmailOff)) ''email''
     = Some \<lparr>enabled = Some False, address = None, phoneNumber = None\<rparr>
   \<and> fst (updatePreferences 2 [addressedPreferences] ''u'' toggleEmailOff)
     = [snd (updatePreferences 2 [addressedPreferences] ''u'' toggleEmailOff)]"
  by (simp add: updatePreferences_def findOneByUser_def addressedPreferences_def
      defaultPreferences_def applyUpdates_def toggleEmailOff_def savePreferences_def Let_def)

section \<open>Digest scheduler\<close>

lemma set_getDigestNotifications:
  "set (getDigestNotifications coll u since) =
     {n \<in> set coll. recipient n = u \<and> includeInDigest (email (nchannels n))
        \<and> \<not> delivered (email (nchannels n)) \<and> createdAt n \<ge> since}"
  by (auto simp: getDigestNotifications_def sortNewestFirst_def)

lemma distinct_getDigestNotifications:
  assumes "distinct (map nid coll)"
  shows "distinct (map nid (getDigestNotifications coll u since))"
proof -
  from assms have d: "distinct coll" and i: "inj_on nid (set coll)"
    by (simp_all add: distinct_map)
  have "set (getDigestNotifications coll u since) \<subseteq> set coll"
    by (auto simp: set_getDigestNotifications)
  with i have "inj_on nid (set (getDigestNotifications coll u since))"
    by (rule inj_on_subset)
  moreover have "distinct (getDigestNotifications coll u since)"
    using d by (simp add: getDigestNotifications_def sortNewestFirst_def)
  ultimately show ?thesis by (simp add: distinct_map)
qed

lemma nid_setEmailDelivered: "nid (setEmailDelivered t n) = nid n"
  by (simp add: setEmailDelivered_def)

lemma map_nid_updateManyDelivered: "map nid (updateManyDelivered ids t coll) = map nid coll"
  by (induction coll) (auto simp: updateManyDelivered_def nid_setEmailDelivered)

lemma updateManyDelivered_flags:
  assumes "m \<in> set (updateManyDelivered ids t coll)" "nid m \<in> set ids"
  shows "delivered (email (nchannels m)) \<and> deliveredAt (email (nchannels m)) = Some t"
  using assms
  by (auto simp: updateManyDelivered_def setEmailDelivered_def split: if_splits)

lemma deliveredIds_updateManyDelivered:
  "deliveredIds (updateManyDelivered ids t coll)
     = deliveredIds coll \<union> (set ids \<inter> nid ` set coll)"
  by (induction coll)
     (auto simp: deliveredIds_def updateManyDelivered_def setEmailDelivered_def)

text \<open>The two ways a run ends: nothing is written, or the digest was sent and flagged.\<close>

lemma sendDigestForUser_cases:
  "sendDigestForUser cal transport coll usr freq now tUpdate = (coll', ev) \<Longrightarrow>
     (coll' = coll \<and> (ev = NoDigest \<or> (\<exists>ns. ev = DigestFailed ns)))
     \<or> (\<exists>u. usr = Some u \<and> acc_email u \<noteq> []
          \<and> ev = DigestSent (getDigestNotifications coll (acc_id u) (lookbackStart cal freq now))
          \<and> getDigestNotifications coll (acc_id u) (lookbackStart cal freq now) \<noteq> []
          \<and> transport (digestMail u
                 (getDigestNotifications coll (acc_id u) (lookbackStart cal freq now)) freq)
          \<and> coll' = updateManyDelivered
                (map nid (getDigestNotifications coll (acc_id u) (lookbackStart cal freq now)))
                tUpdate coll)"
  by (auto simp: sendDigestForUser_def sendDigest_def Let_def
      split: option.splits if_splits bool.splits)

lemma sendDigestForUser_failed:
  "sendDigestForUser cal transport coll usr freq now tUpdate = (coll', DigestFailed ns) \<Longrightarrow>
     coll' = coll
     \<and> (\<exists>u. usr = Some u
            \<and> ns = getDigestNotifications coll (acc_id u) (lookbackStart cal freq now)
            \<and> \<not> transport (digestMail u ns freq))"
  by (auto simp: sendDigestForUser_def sendDigest_def Let_def
      split: option.splits if_splits bool.splits)

lemma selected_not_delivered:
  assumes "distinct (map nid coll)"
  shows "set (map nid (getDigestNotifications coll u since)) \<inter> deliveredIds coll = {}"
proof -
  from assms have i: "inj_on nid (set coll)" by (simp add: distinct_map)
  { fix n m
    assume n: "n \<in> set (getDigestNotifications coll u since)"
       and m: "m \<in> set coll" "delivered (email (nchannels m))" and e: "nid n = nid m"
    from n have "n \<in> set coll" "\<not> delivered (email (nchannels n))"
      by (simp_all add: set_getDigestNotifications)
    with i m e have False by (auto dest: inj_onD) }
  then show ?thesis by (auto simp: deliveredIds_def)
qed

lemma sendDigestForUser_step:
  assumes r: "sendDigestForUser cal transport coll usr freq now tUpdate = (coll', ev)"
      and d: "distinct (map nid coll)"
  shows "map nid coll' = map nid coll"
    and "distinct (sentIds ev)"
    and "set (sentIds ev) \<inter> deliveredIds coll = {}"
    and "deliveredIds coll' = deliveredIds coll \<union> set (sentIds ev)"
proof -
  from sendDigestForUser_cases[OF r]
  have "(coll' = coll \<and> sentIds ev = [])
        \<or> (\<exists>u::account.
              ev = DigestSent (getDigestNotifications coll (acc_id u) (lookbackStart cal freq now))
             \<and> coll' = updateManyDelivered
                (map nid (getDigestNotifications coll (acc_id u) (lookbackStart cal freq now)))
                tUpdate coll)"
  proof (elim disjE exE conjE)
    assume "coll' = coll" "ev = NoDigest"
    then show ?thesis by simp
  next
    fix ns assume "coll' = coll" "ev = DigestFailed ns"
    then show ?thesis by simp
  next
    fix u :: account
    assume "ev = DigestSent (getDigestNotifications coll (acc_id u) (lookbackStart cal freq now))"
      "coll' = updateManyDelivered
                (map nid (getDigestNotifications coll (acc_id u) (lookbackStart cal freq now)))
                tUpdate coll"
    then show ?thesis by blast
  qed
  then consider (same) "coll' = coll" "sentIds ev = []"
    | (sent) u :: account
      where "ev = DigestSent (getDigestNotifications coll (acc_id u) (lookbackStart cal freq now))"
        "coll' = updateManyDelivered
                (map nid (getDigestNotifications coll (acc_id u) (lookbackStart cal freq now)))
                tUpdate coll"
    by blast
  note cases = this
  show "map nid coll' = map nid coll"
    by (cases rule: cases) (simp_all add: map_nid_updateManyDelivered)
  show "distinct (sentIds ev)"
    by (cases rule: cases) (simp_all add: distinct_getDigestNotifications[OF d])
  show "set (sentIds ev) \<inter> deliveredIds coll = {}"
    by (cases rule: cases) (simp_all add: selected_not_delivered[OF d, simplified])
  show "deliveredIds coll' = deliveredIds coll \<union> set (sentIds ev)"
  proof (cases rule: cases)
    case same
    then show ?thesis by simp
  next
    case (sent u)
    have "set (getDigestNotifications coll (acc_id u) (lookbackStart cal freq now)) \<subseteq> set coll"
      by (auto simp: set_getDigestNotifications)
    then show ?thesis
      unfolding sent by (auto simp: deliveredIds_updateManyDelivered)
  qed
qed

text \<open>
  Over any sequence of runs, the ids of the sent digests are pairwise different and none
  of them was marked delivered before the sequence began.
\<close>

lemma digestRuns_distinct:
  "distinct (map nid coll) \<Longrightarrow>
     distinct (concat (map sentIds (snd (digestRuns cal coll runs))))
     \<and> set (concat (map sentIds (snd (digestRuns cal coll runs)))) \<inter> deliveredIds coll = {}"
proof (induction runs arbitrary: coll)
  case Nil
  then show ?case by simp
next
  case (Cons r rs)
  obtain coll1 ev where r: "sendDigestForUser cal (run_transport r) coll (run_user r)
      (run_frequency r) (run_now r) (run_tUpdate r) = (coll1, ev)"
    by (cases "sendDigestForUser cal (run_transport r) coll (run_user r)
      (run_frequency r) (run_now r) (run_tUpdate r)") auto
  note st = sendDigestForUser_step[OF r Cons.prems]
  from st(1) Cons.prems have d1: "distinct (map nid coll1)" by simp
  from Cons.IH[OF d1]
  have ih: "distinct (concat (map sentIds (snd (digestRuns cal coll1 rs))))"
    "set (concat (map sentIds (snd (digestRuns cal coll1 rs)))) \<inter> deliveredIds coll1 = {}"
    by simp_all
  have e: "snd (digestRuns cal coll (r # rs)) = ev # snd (digestRuns cal coll1 rs)"
    using r by (simp split: prod.splits)
  show ?case
    unfolding e using st(2,3,4) ih by auto
qed

lemma pendingColl_eq:
  "pendingColl = [written (send exampleEnv exampleDb ''u'' (examplePayload None))]"
  by (simp add: pendingColl_def send_def Let_def saveNotification_def exampleDb_def
      split: prod.splits)

lemma pending_facts:
  "nid (written (send exampleEnv exampleDb ''u'' (examplePayload None))) = 10"
  "recipient (written (send exampleEnv exampleDb ''u'' (examplePayload None))) = ''u''"
  "createdAt (written (send exampleEnv exampleDb ''u'' (examplePayload None))) = 82800003"
  "includeInDigest
     (email (nchannels (written (send exampleEnv exampleDb ''u'' (examplePayload None)))))"
  "\<not> delivered
     (email (nchannels (written (send exampleEnv exampleDb ''u'' (examplePayload None)))))"
  by (simp_all add: send_identity send_email_state Let_def loadOrCreate_example
      category_example priority_example_normal shouldSend_example frequency_example)
     (simp_all add: exampleEnv_def)

lemma selected_pending:
  "getDigestNotifications pendingColl ''u'' 32400000 = pendingColl"
  "getDigestNotifications pendingColl ''u'' (- 486000000) = pendingColl"
  "getDigestNotifications pendingColl ''u'' 118800000 = []"
  by (simp_all add: getDigestNotifications_def sortNewestFirst_def pendingColl_eq pending_facts)

text \<open>The three ways a run for a user with an address ends, from its inputs.\<close>

lemma sendDigestForUser_accepted:
  assumes "acc_email u \<noteq> []"
      and "ns = getDigestNotifications coll (acc_id u) (lookbackStart cal freq now)"
      and "ns \<noteq> []" and "transport (digestMail u ns freq)"
  shows "sendDigestForUser cal transport coll (Some u) freq now tUpdate
           = (updateManyDelivered (map nid ns) tUpdate coll, DigestSent ns)"
  using assms by (simp add: sendDigestForUser_def sendDigest_def Let_def)

lemma sendDigestForUser_rejected:
  assumes "acc_email u \<noteq> []"
      and "ns = getDigestNotifications coll (acc_id u) (lookbackStart cal freq now)"
      and "ns \<noteq> []" and "\<not> transport (digestMail u ns freq)"
  shows "sendDigestForUser cal transport coll (Some u) freq now tUpdate
           = (coll, DigestFailed ns)"
  using assms by (simp add: sendDigestForUser_def sendDigest_def Let_def)

lemma sendDigestForUser_nothing:
  assumes "acc_email u = []
           \<or> getDigestNotifications coll (acc_id u) (lookbackStart cal freq now) = []"
  shows "sendDigestForUser cal transport coll (Some u) freq now tUpdate = (coll, NoDigest)"
  using assms by (auto simp: sendDigestForUser_def Let_def)

lemma sendDigestForUser_records:
  assumes "snd (sendDigestForUser cal transport coll (Some u) freq now tUpdate) = DigestSent ns
           \<or> snd (sendDigestForUser cal transport coll (Some u) freq now tUpdate)
               = DigestFailed ns"
  shows "ns = getDigestNotifications coll (acc_id u) (lookbackStart cal freq now)"
  using assms
  by (auto simp: sendDigestForUser_def sendDigest_def Let_def split: if_splits)

lemma updateManyDelivered_explicit:
  "updateManyDelivered (map nid ns) t coll =
     map (\<lambda>m. if nid m \<in> nid ` set ns
              then m\<lparr>nchannels := (nchannels m)\<lparr>email :=
                     (email (nchannels m))\<lparr>delivered := True, deliveredAt := Some t\<rparr>\<rparr>\<rparr>
              else m) coll"
  by (simp add: updateManyDelivered_def setEmailDelivered_def)

lemma updateManyDelivered_not_selected:
  assumes "m \<in> set (getDigestNotifications (updateManyDelivered ids t coll) v since)"
  shows "nid m \<notin> set ids"
proof
  assume i: "nid m \<in> set ids"
  from assms have "m \<in> set (updateManyDelivered ids t coll)"
    and n: "\<not> delivered (email (nchannels m))"
    by (simp_all add: set_getDigestNotifications)
  from updateManyDelivered_flags[OF this(1) i] n show False by simp
qed

text \<open>
  C5, as the code has it. A run of \<open>sendDigestForUser\<close> for user \<open>u\<close> reads the clock
  (\<open>now\<close>), moves it back by one local day for the frequency \<^verbatim>\<open>daily\<close> and by seven for
  any other (\<open>since\<close>), and queries the records \<open>ns\<close> of \<open>u\<close> with \<open>includeInDigest\<close> true,
  \<open>delivered\<close> false and \<open>createdAt\<close> not before \<open>since\<close>.
  \<^item> If \<open>u\<close> has an address, \<open>ns\<close> is not empty and the transport accepts the mail, the
    digest with \<open>ns\<close> is sent and the collection after the run is the collection before
    it with \<open>delivered\<close> true and \<open>deliveredAt\<close> the time of the update in every record
    whose id is in \<open>ns\<close>, and every other record as it was; no query on that collection,
    whatever its user and window, selects a record with such an id.
  \<^item> If the transport throws, the digest has failed and the collection is as it was; if
    \<open>u\<close> has no address or \<open>ns\<close> is empty, or there is no user, nothing happens.
  \<^item> A record of \<open>ns\<close> is selected by a query on the unchanged collection exactly when
    its \<open>createdAt\<close> is not before the start of the window of that query. In a process
    whose local time is UTC the window starts 86400000 ms (daily) or 604800000 ms
    (otherwise) before \<open>now\<close>, and a record of \<open>ns\<close> created before \<open>now\<close> is in no
    digest, sent or failed, of a run on the unchanged collection that reads its clock
    one period or more after \<open>now\<close>.
  \<^item> Over any sequence of runs on a collection with unique ids, no id is in two sent
    digests.
\<close>

theorem digest_flags_and_retry:
  "let since = (if freq = ''daily'' then cal 1 now else cal 7 now);
       ns = getDigestNotifications coll (acc_id u) since;
       run = sendDigestForUser cal transport coll (Some u) freq now tUpdate
   in set ns = {n \<in> set coll. recipient n = acc_id u
                  \<and> includeInDigest (email (nchannels n))
                  \<and> \<not> delivered (email (nchannels n))
                  \<and> since \<le> createdAt n}
      \<and> (acc_email u \<noteq> [] \<and> ns \<noteq> [] \<and> transport (digestMail u ns freq) \<longrightarrow>
           snd run = DigestSent ns
           \<and> fst run =
               map (\<lambda>m. if nid m \<in> nid ` set ns
                        then m\<lparr>nchannels := (nchannels m)\<lparr>email :=
                               (email (nchannels m))\<lparr>delivered := True,
                                                     deliveredAt := Some tUpdate\<rparr>\<rparr>\<rparr>
                        else m) coll
           \<and> (\<forall>m\<in>set (fst run). nid m \<in> nid ` set ns \<longrightarrow>
                 delivered (email (nchannels m))
                 \<and> deliveredAt (email (nchannels m)) = Some tUpdate)
           \<and> (\<forall>v since2. \<forall>m\<in>set (getDigestNotifications (fst run) v since2).
                 nid m \<notin> nid ` set ns))
      \<and> (acc_email u \<noteq> [] \<and> ns \<noteq> [] \<and> \<not> transport (digestMail u ns freq) \<longrightarrow>
           run = (coll, DigestFailed ns))
      \<and> (acc_email u = [] \<or> ns = [] \<longrightarrow> run = (coll, NoDigest))
      \<and> sendDigestForUser cal transport coll None freq now tUpdate = (coll, NoDigest)
      \<and> (\<forall>n\<in>set ns. \<forall>since2.
            (n \<in> set (getDigestNotifications coll (acc_id u) since2))
              = (since2 \<le> createdAt n))
      \<and> (cal = utcCalendar \<longrightarrow>
            since = (if freq = ''daily'' then now - 86400000 else now - 604800000))
      \<and> (\<forall>n\<in>set ns. \<forall>transport2 freq2 now2 tUpdate2 ns2.
            createdAt n < now
            \<and> now + (if freq2 = ''daily'' then 86400000 else 604800000) \<le> now2
            \<and> (snd (sendDigestForUser utcCalendar transport2 coll (Some u) freq2 now2
                       tUpdate2) = DigestSent ns2
               \<or> snd (sendDigestForUser utcCalendar transport2 coll (Some u) freq2 now2
                          tUpdate2) = DigestFailed ns2)
            \<longrightarrow> n \<notin> set ns2)
      \<and> (distinct (map nid coll) \<longrightarrow>
            distinct (concat (map sentIds (snd (digestRuns cal coll runs)))))"
proof -
  let ?since = "if freq = ''daily'' then cal 1 now else cal 7 now"
  let ?ns = "getDigestNotifications coll (acc_id u) ?since"
  let ?run = "sendDigestForUser cal transport coll (Some u) freq now tUpdate"
  have s: "lookbackStart cal freq now = ?since" by (simp add: lookbackStart_def)
  have c1: "set ?ns = {n \<in> set coll. recipient n = acc_id u
                  \<and> includeInDigest (email (nchannels n))
                  \<and> \<not> delivered (email (nchannels n))
                  \<and> ?since \<le> createdAt n}"
    by (rule set_getDigestNotifications)
  have c2: "acc_email u \<noteq> [] \<and> ?ns \<noteq> [] \<and> transport (digestMail u ?ns freq) \<longrightarrow>
           snd ?run = DigestSent ?ns
           \<and> fst ?run =
               map (\<lambda>m. if nid m \<in> nid ` set ?ns
                        then m\<lparr>nchannels := (nchannels m)\<lparr>email :=
                               (email (nchannels m))\<lparr>delivered := True,
                                                     deliveredAt := Some tUpdate\<rparr>\<rparr>\<rparr>
                        else m) coll
           \<and> (\<forall>m\<in>set (fst ?run). nid m \<in> nid ` set ?ns \<longrightarrow>
                 delivered (email (nchannels m))
                 \<and> deliveredAt (email (nchannels m)) = Some tUpdate)
           \<and> (\<forall>v since2. \<forall>m\<in>set (getDigestNotifications (fst ?run) v since2).
                 nid m \<notin> nid ` set ?ns)"
  proof
    assume a: "acc_email u \<noteq> [] \<and> ?ns \<noteq> [] \<and> transport (digestMail u ?ns freq)"
    have r: "?run = (updateManyDelivered (map nid ?ns) tUpdate coll, DigestSent ?ns)"
      using a by (intro sendDigestForUser_accepted) (simp_all add: s)
    have f: "fst ?run = updateManyDelivered (map nid ?ns) tUpdate coll"
      unfolding r by simp
    have "snd ?run = DigestSent ?ns" unfolding r by simp
    moreover note f[unfolded updateManyDelivered_explicit]
    moreover have "\<forall>m\<in>set (fst ?run). nid m \<in> nid ` set ?ns \<longrightarrow>
                 delivered (email (nchannels m))
                 \<and> deliveredAt (email (nchannels m)) = Some tUpdate"
      unfolding f using updateManyDelivered_flags[of _ "map nid ?ns" tUpdate coll] by simp
    moreover have "\<forall>v since2. \<forall>m\<in>set (getDigestNotifications (fst ?run) v since2).
                 nid m \<notin> nid ` set ?ns"
      unfolding f
      using updateManyDelivered_not_selected[of _ "map nid ?ns" tUpdate coll] by simp
    ultimately show "snd ?run = DigestSent ?ns
           \<and> fst ?run =
               map (\<lambda>m. if nid m \<in> nid ` set ?ns
                        then m\<lparr>nchannels := (nchannels m)\<lparr>email :=
                               (email (nchannels m))\<lparr>delivered := True,
                                                     deliveredAt := Some tUpdate\<rparr>\<rparr>\<rparr>
                        else m) coll
           \<and> (\<forall>m\<in>set (fst ?run). nid m \<in> nid ` set ?ns \<longrightarrow>
                 delivered (email (nchannels m))
                 \<and> deliveredAt (email (nchannels m)) = Some tUpdate)
           \<and> (\<forall>v since2. \<forall>m\<in>set (getDigestNotifications (fst ?run) v since2).
                 nid m \<notin> nid ` set ?ns)"
      by (intro conjI)
  qed
  have c3: "acc_email u \<noteq> [] \<and> ?ns \<noteq> [] \<and> \<not> transport (digestMail u ?ns freq) \<longrightarrow>
           ?run = (coll, DigestFailed ?ns)"
  proof
    assume "acc_email u \<noteq> [] \<and> ?ns \<noteq> [] \<and> \<not> transport (digestMail u ?ns freq)"
    then show "?run = (coll, DigestFailed ?ns)"
      by (intro sendDigestForUser_rejected) (simp_all add: s)
  qed
  have c4: "acc_email u = [] \<or> ?ns = [] \<longrightarrow> ?run = (coll, NoDigest)"
    using sendDigestForUser_nothing[of u coll cal freq now transport tUpdate]
    by (simp add: s)
  have c5: "sendDigestForUser cal transport coll None freq now tUpdate = (coll, NoDigest)"
    by (simp add: sendDigestForUser_def)
  have c6: "\<forall>n\<in>set ?ns. \<forall>since2.
            (n \<in> set (getDigestNotifications coll (acc_id u) since2))
              = (since2 \<le> createdAt n)"
    by (simp add: set_getDigestNotifications)
  have c7: "cal = utcCalendar \<longrightarrow>
            ?since = (if freq = ''daily'' then now - 86400000 else now - 604800000)"
    by (simp add: utcCalendar_def)
  have c8: "\<forall>n\<in>set ?ns. \<forall>transport2 freq2 now2 tUpdate2 ns2.
            createdAt n < now
            \<and> now + (if freq2 = ''daily'' then 86400000 else 604800000) \<le> now2
            \<and> (snd (sendDigestForUser utcCalendar transport2 coll (Some u) freq2 now2
                       tUpdate2) = DigestSent ns2
               \<or> snd (sendDigestForUser utcCalendar transport2 coll (Some u) freq2 now2
                          tUpdate2) = DigestFailed ns2)
            \<longrightarrow> n \<notin> set ns2"
  proof (intro ballI allI impI)
    fix n :: notification and transport2 freq2 now2 tUpdate2 ns2
    assume a: "createdAt n < now
            \<and> now + (if freq2 = ''daily'' then 86400000 else 604800000) \<le> now2
            \<and> (snd (sendDigestForUser utcCalendar transport2 coll (Some u) freq2 now2
                       tUpdate2) = DigestSent ns2
               \<or> snd (sendDigestForUser utcCalendar transport2 coll (Some u) freq2 now2
                          tUpdate2) = DigestFailed ns2)"
    then have "ns2 = getDigestNotifications coll (acc_id u)
                       (lookbackStart utcCalendar freq2 now2)"
      using sendDigestForUser_records[of utcCalendar transport2 coll u freq2 now2 tUpdate2 ns2]
      by simp
    moreover from a have "createdAt n < lookbackStart utcCalendar freq2 now2"
      by (simp add: lookbackStart_def utcCalendar_def split: if_splits)
    ultimately show "n \<notin> set ns2"
      by (simp add: set_getDigestNotifications)
  qed
  have c9: "distinct (map nid coll) \<longrightarrow>
            distinct (concat (map sentIds (snd (digestRuns cal coll runs))))"
    using digestRuns_distinct by blast
  show ?thesis
    unfolding Let_def by (intro conjI c1 c2 c3 c4 c5 c6 c7 c8 c9)
qed

lemma due_example:
  "dailyDigestDue quietPreferences 118800000" "dailyDigestDue quietPreferences 205200000"
  by (simp_all add: dailyDigestDue_def quietPreferences_def defaultPreferences_def padStart2_def
      digitChar_def decimalDigits_def getUTCHours_def)

lemma pendingColl_nonempty: "pendingColl \<noteq> []" "0 < length pendingColl"
  by (simp_all add: pendingColl_eq)

lemma exampleAccount_fields:
  "acc_id exampleAccount = ''u''" "acc_email exampleAccount \<noteq> []"
  by (simp_all add: exampleAccount_def)

lemma failed_run:
  "sendDigestForUser utcCalendar failingMail pendingColl (Some exampleAccount) ''daily''
     118800000 118800001 = (pendingColl, DigestFailed pendingColl)"
  by (simp add: sendDigestForUser_def Let_def exampleAccount_def lookbackStart_def
      utcCalendar_def selected_pending sendDigest_def failingMail_def pendingColl_nonempty)

lemma next_run:
  "sendDigestForUser utcCalendar workingMail pendingColl (Some exampleAccount) ''daily''
     205200000 205200001 = (pendingColl, NoDigest)"
  by (simp add: sendDigestForUser_def Let_def exampleAccount_def lookbackStart_def
      utcCalendar_def selected_pending)

lemma pending_flagged:
  "map (\<lambda>m. if nid m \<in> nid ` set pendingColl
            then m\<lparr>nchannels := (nchannels m)\<lparr>email :=
                   (email (nchannels m))\<lparr>delivered := True, deliveredAt := Some t\<rparr>\<rparr>\<rparr>
            else m) pendingColl
   = [(written (send exampleEnv exampleDb ''u'' (examplePayload None)))
        \<lparr>nchannels := (nchannels (written (send exampleEnv exampleDb ''u'' (examplePayload None))))
           \<lparr>email := (email (nchannels (written (send exampleEnv exampleDb ''u''
                                                   (examplePayload None)))))
              \<lparr>delivered := True, deliveredAt := Some t\<rparr>\<rparr>\<rparr>]"
  by (simp add: pendingColl_eq)

text \<open>
  The record dispatched at 23:00 of day 0 is in the daily and in the weekly digest of
  09:00 of day 1. When the transport accepts the mail, the digest is sent and the batch
  update flags the record, for the daily digest as for the weekly one; in three runs in
  a row the digests hold no id twice. When the transport throws, the collection stays as
  it is, and the run of 09:00 of day 2 does not select the record.
\<close>

theorem digest_flags_and_retry_witness:
  "snd (sendDigestForUser utcCalendar workingMail pendingColl (Some exampleAccount) ''daily''
          118800000 118800001) = DigestSent pendingColl
   \<and> map (\<lambda>m. (delivered (email (nchannels m)), deliveredAt (email (nchannels m))))
       (fst (sendDigestForUser utcCalendar workingMail pendingColl (Some exampleAccount)
               ''daily'' 118800000 118800001)) = [(True, Some 118800001)]
   \<and> snd (sendDigestForUser utcCalendar workingMail pendingColl (Some exampleAccount)
            ''weekly'' 118800000 118800001) = DigestSent pendingColl
   \<and> map (\<lambda>m. (delivered (email (nchannels m)), deliveredAt (email (nchannels m))))
       (fst (sendDigestForUser utcCalendar workingMail pendingColl (Some exampleAccount)
               ''weekly'' 118800000 118800001)) = [(True, Some 118800001)]
   \<and> sendDigestForUser utcCalendar failingMail pendingColl (Some exampleAccount) ''daily''
       118800000 118800001 = (pendingColl, DigestFailed pendingColl)
   \<and> sendDigestForUser utcCalendar workingMail pendingColl (Some exampleAccount) ''daily''
       205200000 205200001 = (pendingColl, NoDigest)
   \<and> distinct (map nid pendingColl)
   \<and> distinct (concat (map sentIds
        (snd (digestRuns utcCalendar pendingColl [morningRun, weeklyRun, morningRun]))))"
proof -
  note daily = digest_flags_and_retry[where cal = utcCalendar and transport = workingMail
      and coll = pendingColl and u = exampleAccount and freq = "''daily''"
      and now = 118800000 and tUpdate = 118800001
      and runs = "[morningRun, weeklyRun, morningRun]", unfolded Let_def]
  note weekly = digest_flags_and_retry[where cal = utcCalendar and transport = workingMail
      and coll = pendingColl and u = exampleAccount and freq = "''weekly''"
      and now = 118800000 and tUpdate = 118800001 and runs = "[]", unfolded Let_def]
  note failed = digest_flags_and_retry[where cal = utcCalendar and transport = failingMail
      and coll = pendingColl and u = exampleAccount and freq = "''daily''"
      and now = 118800000 and tUpdate = 118800001 and runs = "[]", unfolded Let_def]
  note later = digest_flags_and_retry[where cal = utcCalendar and transport = workingMail
      and coll = pendingColl and u = exampleAccount and freq = "''daily''"
      and now = 205200000 and tUpdate = 205200001 and runs = "[]", unfolded Let_def]
  have d: "distinct (map nid pendingColl)" by (simp add: pendingColl_eq)
  have a1: "snd (sendDigestForUser utcCalendar workingMail pendingColl (Some exampleAccount)
                  ''daily'' 118800000 118800001) = DigestSent pendingColl"
    and a2: "map (\<lambda>m. (delivered (email (nchannels m)), deliveredAt (email (nchannels m))))
       (fst (sendDigestForUser utcCalendar workingMail pendingColl (Some exampleAccount)
               ''daily'' 118800000 118800001)) = [(True, Some 118800001)]"
    and a3: "distinct (concat (map sentIds
        (snd (digestRuns utcCalendar pendingColl [morningRun, weeklyRun, morningRun]))))"
    using daily d
    by (simp_all add: utcCalendar_def exampleAccount_fields selected_pending
        pendingColl_nonempty workingMail_def pending_flagged)
  have b1: "snd (sendDigestForUser utcCalendar workingMail pendingColl (Some exampleAccount)
                  ''weekly'' 118800000 118800001) = DigestSent pendingColl"
    and b2: "map (\<lambda>m. (delivered (email (nchannels m)), deliveredAt (email (nchannels m))))
       (fst (sendDigestForUser utcCalendar workingMail pendingColl (Some exampleAccount)
               ''weekly'' 118800000 118800001)) = [(True, Some 118800001)]"
    using weekly
    by (simp_all add: utcCalendar_def exampleAccount_fields selected_pending
        pendingColl_nonempty workingMail_def pending_flagged)
  have c: "sendDigestForUser utcCalendar failingMail pendingColl (Some exampleAccount)
             ''daily'' 118800000 118800001 = (pendingColl, DigestFailed pendingColl)"
    using failed
    by (simp add: utcCalendar_def exampleAccount_fields selected_pending
        pendingColl_nonempty failingMail_def)
  have e: "sendDigestForUser utcCalendar workingMail pendingColl (Some exampleAccount)
             ''daily'' 205200000 205200001 = (pendingColl, NoDigest)"
    using later
    by (simp add: utcCalendar_def exampleAccount_fields selected_pending)
  show ?thesis by (intro conjI a1 a2 b1 b2 c e d a3)
qed

text \<open>
  The claim C5 as it is written fails in its last part. The process runs in UTC and the
  daily digest of \<open>u\<close> is due at 09:00. At 09:00 of day 1 the transport throws: the
  digest with the record of 23:00 of day 0 fails and nothing is written. At 09:00 of
  day 2, the next tick that matches, the transport works, and the run sends nothing: the
  record is older than one day, so the query does not select it, and the failed digest
  is not retried.
\<close>

theorem digest_flags_and_retry_counterexample:
  "dailyDigestDue quietPreferences 118800000
   \<and> sendDigestForUser utcCalendar failingMail pendingColl (Some exampleAccount) ''daily''
        118800000 118800001 = (pendingColl, DigestFailed pendingColl)
   \<and> pendingColl \<noteq> []
   \<and> dailyDigestDue quietPreferences 205200000
   \<and> sendDigestForUser utcCalendar workingMail pendingColl (Some exampleAccount) ''daily''
        205200000 205200001 = (pendingColl, NoDigest)"
  using due_example failed_run next_run pendingColl_nonempty by simp

end
